theory Spec2Isabelle
  imports Complex_Main
begin

unbundle bit_operations_syntax

section \<open>Exceptions\<close>

text \<open>
  Every \<^verbatim>\<open>raise\<close> of the modelled Python is a value of this type; a function that can
  raise returns \<open>py_error + 'a\<close> with \<open>Inl\<close> for the exception. \<open>BodyError\<close> stands
  for any exception raised by caller code running inside a \<^verbatim>\<open>with\<close> block.
\<close>

datatype py_error =
    IndexError
  | ValueError
  | OverflowError
  | ZeroDivisionError
  | RuntimeError
  | KeyError
  | AttributeError
  | UnboundLocalError
  | BodyError

section \<open>numpy floating point values\<close>

text \<open>
  A numpy \<^verbatim>\<open>float64\<close> is modelled as a finite value, one of the two infinities or
  not-a-number. Finite arithmetic is exact (a real number): rounding, overflow and
  underflow are left out, and so is the sign of zero (a zero divisor counts as \<open>+0.0\<close>).
  What numpy does where real arithmetic is undefined is written out: dividing by zero
  gives an infinity or NaN (with a warning, never an exception), NaN propagates through
  every operation, and every comparison with NaN is false.
\<close>

datatype npfloat = Fin real | PInf | NInf | NaN

fun fneg :: "npfloat \<Rightarrow> npfloat" where
  "fneg (Fin a) = Fin (- a)"
| "fneg PInf = NInf"
| "fneg NInf = PInf"
| "fneg NaN = NaN"

fun fadd :: "npfloat \<Rightarrow> npfloat \<Rightarrow> npfloat" where
  "fadd (Fin a) (Fin b) = Fin (a + b)"
| "fadd (Fin a) PInf = PInf"
| "fadd (Fin a) NInf = NInf"
| "fadd PInf (Fin b) = PInf"
| "fadd NInf (Fin b) = NInf"
| "fadd PInf PInf = PInf"
| "fadd NInf NInf = NInf"
| "fadd PInf NInf = NaN"
| "fadd NInf PInf = NaN"
| "fadd NaN y = NaN"
| "fadd x NaN = NaN"

definition fsub :: "npfloat \<Rightarrow> npfloat \<Rightarrow> npfloat" where
  "fsub x y = fadd x (fneg y)"

definition inf_of_sign :: "real \<Rightarrow> npfloat" where
  "inf_of_sign a = (if a = 0 then NaN else if 0 < a then PInf else NInf)"

fun fmul :: "npfloat \<Rightarrow> npfloat \<Rightarrow> npfloat" where
  "fmul (Fin a) (Fin b) = Fin (a * b)"
| "fmul (Fin a) PInf = inf_of_sign a"
| "fmul (Fin a) NInf = inf_of_sign (- a)"
| "fmul PInf (Fin b) = inf_of_sign b"
| "fmul NInf (Fin b) = inf_of_sign (- b)"
| "fmul PInf PInf = PInf"
| "fmul NInf NInf = PInf"
| "fmul PInf NInf = NInf"
| "fmul NInf PInf = NInf"
| "fmul NaN y = NaN"
| "fmul x NaN = NaN"

fun fdiv :: "npfloat \<Rightarrow> npfloat \<Rightarrow> npfloat" where
  "fdiv (Fin a) (Fin b) = (if b = 0 then inf_of_sign a else Fin (a / b))"
| "fdiv (Fin a) PInf = Fin 0"
| "fdiv (Fin a) NInf = Fin 0"
| "fdiv PInf (Fin b) = (if 0 \<le> b then PInf else NInf)"
| "fdiv NInf (Fin b) = (if 0 \<le> b then NInf else PInf)"
| "fdiv PInf PInf = NaN"
| "fdiv NInf NInf = NaN"
| "fdiv PInf NInf = NaN"
| "fdiv NInf PInf = NaN"
| "fdiv NaN y = NaN"
| "fdiv x NaN = NaN"

fun fsqrt :: "npfloat \<Rightarrow> npfloat" where
  "fsqrt (Fin a) = (if 0 \<le> a then Fin (sqrt a) else NaN)"
| "fsqrt PInf = PInf"
| "fsqrt NInf = NaN"
| "fsqrt NaN = NaN"

text \<open>The comparisons \<^verbatim>\<open>x >= y\<close> and \<^verbatim>\<open>x == y\<close>.\<close>

fun fge :: "npfloat \<Rightarrow> npfloat \<Rightarrow> bool" where
  "fge (Fin a) (Fin b) = (b \<le> a)"
| "fge (Fin a) PInf = False"
| "fge (Fin a) NInf = True"
| "fge PInf (Fin b) = True"
| "fge NInf (Fin b) = False"
| "fge PInf PInf = True"
| "fge NInf NInf = True"
| "fge PInf NInf = True"
| "fge NInf PInf = False"
| "fge NaN y = False"
| "fge x NaN = False"

fun feq :: "npfloat \<Rightarrow> npfloat \<Rightarrow> bool" where
  "feq NaN y = False"
| "feq x NaN = False"
| "feq x y = (x = y)"

definition finite_float :: "npfloat \<Rightarrow> bool" where
  "finite_float x = (case x of Fin a \<Rightarrow> True | _ \<Rightarrow> False)"

section \<open>Images\<close>

text \<open>
  An image is its pixel buffer in row-major order (\<^verbatim>\<open>image.ravel()\<close>). All arithmetic
  the code does on images is elementwise between arrays of one shape, or between an
  array and a scalar; \<^verbatim>\<open>a.sum()\<close> of an empty array is \<open>0.0\<close>.
\<close>

type_synonym image = "npfloat list"

definition arr_add :: "image \<Rightarrow> image \<Rightarrow> image" where
  "arr_add a b = map2 fadd a b"

definition arr_sub :: "image \<Rightarrow> image \<Rightarrow> image" where
  "arr_sub a b = map2 fsub a b"

definition arr_mul :: "image \<Rightarrow> image \<Rightarrow> image" where
  "arr_mul a b = map2 fmul a b"

definition arr_scale :: "image \<Rightarrow> npfloat \<Rightarrow> image" where
  "arr_scale a c = map (\<lambda>x. fmul x c) a"

definition arr_square :: "image \<Rightarrow> image" where
  "arr_square a = map (\<lambda>x. fmul x x) a"

definition arr_sum :: "image \<Rightarrow> npfloat" where
  "arr_sum a = foldl fadd (Fin 0) a"

definition finite_image :: "image \<Rightarrow> bool" where
  "finite_image a = list_all finite_float a"

section \<open>The template flux estimator (shredding.py, get\_flux)\<close>

text \<open>
  The local variables of \<^verbatim>\<open>get_flux\<close>. \<^verbatim>\<open>xcorr_sum\<close>, \<^verbatim>\<open>msq_sum\<close> and \<^verbatim>\<open>chi2\<close> are
  unbound until a pass assigns them; reading an unbound local raises.
\<close>

record flux_locals =
  flux :: npfloat
  flux_err :: npfloat
  model :: image
  xcorr_sum :: "npfloat option"
  msq_sum :: "npfloat option"
  chi2 :: "npfloat option"

definition read_local :: "npfloat option \<Rightarrow> py_error + npfloat" where
  "read_local v = (case v of None \<Rightarrow> Inl UnboundLocalError | Some x \<Rightarrow> Inr x)"

text \<open>
  One iteration of \<^verbatim>\<open>for ipass in [1, 2]\<close>. The result carries whether the iteration
  left the loop through \<^verbatim>\<open>break\<close>.
\<close>

definition get_flux_pass ::
  "image \<Rightarrow> image \<Rightarrow> nat \<Rightarrow> flux_locals \<Rightarrow> py_error + (bool \<times> flux_locals)" where
  "get_flux_pass im wt ipass s =
     (let s1 =
        (if ipass = 1 then
           (let m = arr_scale (model s) (fdiv (Fin 1) (arr_sum (model s)))
            in s\<lparr>model := m,
                 xcorr_sum := Some (arr_sum (arr_mul (arr_mul m im) wt)),
                 msq_sum := Some (arr_sum (arr_mul (arr_mul m m) wt))\<rparr>)
         else
           (let m = arr_scale (model s) (flux s)
            in s\<lparr>model := m,
                 chi2 := Some (arr_sum (arr_mul (arr_square (arr_sub m im)) wt))\<rparr>))
      in if ipass = 1 then
           (case read_local (msq_sum s1) of
              Inl e \<Rightarrow> Inl e
            | Inr q \<Rightarrow>
                if feq q (Fin 0) then Inr (True, s1)
                else (case read_local (xcorr_sum s1) of
                        Inl e \<Rightarrow> Inl e
                      | Inr x \<Rightarrow> Inr (False, s1\<lparr>flux := fdiv x q\<rparr>)))
         else Inr (False, s1))"

fun get_flux_loop ::
  "image \<Rightarrow> image \<Rightarrow> nat list \<Rightarrow> flux_locals \<Rightarrow> py_error + flux_locals" where
  "get_flux_loop im wt [] s = Inr s"
| "get_flux_loop im wt (ipass # rest) s =
     (case get_flux_pass im wt ipass s of
        Inl e \<Rightarrow> Inl e
      | Inr (brk, s') \<Rightarrow> if brk then Inr s' else get_flux_loop im wt rest s')"

text \<open>
  \<^verbatim>\<open>get_flux(im, wt, model_in)\<close>. numpy refuses elementwise arithmetic between arrays
  whose shapes do not match (broadcasting of a size-one axis is not modelled); the
  three images of one band have one shape. \<^verbatim>\<open>im.size - 1\<close> is a Python integer,
  converted to a float by the division.
\<close>

definition get_flux :: "image \<Rightarrow> image \<Rightarrow> image \<Rightarrow> py_error + (npfloat \<times> npfloat)" where
  "get_flux im wt model_in =
     (if length wt = length im \<and> length model_in = length im then
        (case get_flux_loop im wt [1, 2]
                \<lparr>flux = Fin (- 9999000000000), flux_err = Fin 1000000000,
                 model = model_in, xcorr_sum = None, msq_sum = None, chi2 = None\<rparr> of
           Inl e \<Rightarrow> Inl e
         | Inr s \<Rightarrow>
             (case read_local (msq_sum s) of
                Inl e \<Rightarrow> Inl e
              | Inr q \<Rightarrow>
                  if feq q (Fin 0) then Inr (flux s, flux_err s)
                  else
                    (case read_local (chi2 s) of
                       Inl e \<Rightarrow> Inl e
                     | Inr c \<Rightarrow>
                         (let arg = fdiv (fdiv c q) (Fin (of_int (int (length im) - 1)))
                          in if fge arg (Fin 0) then Inr (flux s, fsqrt arg)
                             else Inr (flux s, flux_err s)))))
      else Inl ValueError)"

section \<open>Observations, mixtures and fit results\<close>

text \<open>
  The fields of ngmix's objects that the code reads. A \<^verbatim>\<open>GMix\<close> is its array of
  components (\<^verbatim>\<open>get_data()\<close>, with the fields \<^verbatim>\<open>p\<close>, \<^verbatim>\<open>row\<close>, \<^verbatim>\<open>col\<close>, \<^verbatim>\<open>irr\<close>, \<^verbatim>\<open>irc\<close>,
  \<^verbatim>\<open>icc\<close>); a \<^verbatim>\<open>MultiBandObsList\<close> is a list of \<^verbatim>\<open>ObsList\<close>s, one
  per band, each a list of observations. Reading \<^verbatim>\<open>obs.psf\<close> of an observation
  without a PSF raises in ngmix.
\<close>

record gauss =
  g_p :: npfloat
  g_row :: npfloat
  g_col :: npfloat
  g_irr :: npfloat
  g_irc :: npfloat
  g_icc :: npfloat

type_synonym gmix = "gauss list"

record jacobian =
  jac_row :: npfloat
  jac_col :: npfloat
  dvdrow :: npfloat
  dvdcol :: npfloat
  dudrow :: npfloat
  dudcol :: npfloat
  scale :: npfloat

record 'p observation =
  image :: image
  weight :: image
  obs_jacobian :: jacobian
  obs_psf :: "'p option"

type_synonym 'p obslist = "'p observation list"
type_synonym 'p mbobs = "'p obslist list"

definition psf :: "'p observation \<Rightarrow> py_error + 'p" where
  "psf obs = (case obs_psf obs of None \<Rightarrow> Inl RuntimeError | Some x \<Rightarrow> Inr x)"

text \<open>\<^verbatim>\<open>obslist[0]\<close>: the first observation of a band, \<^verbatim>\<open>IndexError\<close> on an empty list.\<close>

definition first_obs :: "'p obslist \<Rightarrow> py_error + 'p observation" where
  "first_obs obslist = (case obslist of [] \<Rightarrow> Inl IndexError | obs # _ \<Rightarrow> Inr obs)"

text \<open>
  The result dictionary of an EM fitter. The fitter writes \<^verbatim>\<open>flags\<close> and \<^verbatim>\<open>sky\<close> (and
  diagnostics no code here reads); the keys \<^verbatim>\<open>gmix\<close>, \<^verbatim>\<open>total_flux\<close> and
  \<^verbatim>\<open>total_flux_err\<close> are absent until the shredder stores them.
\<close>

record fit_result =
  res_flags :: int
  res_sky :: npfloat
  res_gmix :: "gmix option"
  total_flux :: "npfloat option"
  total_flux_err :: "npfloat option"

text \<open>A fitter after \<^verbatim>\<open>go\<close>: \<^verbatim>\<open>get_result()\<close>, \<^verbatim>\<open>get_gmix()\<close>, \<^verbatim>\<open>get_convolved_gmix()\<close>.\<close>

record em_fitter =
  get_result :: fit_result
  get_gmix :: gmix
  get_convolved_gmix :: gmix

section \<open>Collaborators outside the repository's sources\<close>

text \<open>
  The EM fitters, ngmix's image preparation, renderer and mixture operations, the
  random number generator, and the flag constants \<^verbatim>\<open>ngmix.em.EM_MAXITER\<close>,
  \<^verbatim>\<open>procflags.COADD_FAILURE\<close> and \<^verbatim>\<open>procflags.BAND_FAILURE\<close> are not part of the
  sources. They are parameters of the model: every theorem below holds for whatever
  they compute. \<open>'r\<close> is the state of the random number generator.
  The two renderers, \<^verbatim>\<open>GMix.make_image\<close> and \<^verbatim>\<open>render_nb.render\<close> with
  \<^verbatim>\<open>fast_exp=1\<close>, fill a buffer that starts at zero: \<open>gmix_pixel X gm jac n k\<close> and
  \<open>render X gm jac n k\<close> are the values they give pixel \<open>k\<close> of a buffer of \<open>n\<close>
  pixels.
\<close>

record ('p, 'r) collab =
  EM_MAXITER :: int
  COADD_FAILURE :: int
  BAND_FAILURE :: int
  prep_image :: "image \<Rightarrow> image \<times> npfloat"
  GMixEMFixCen :: "'p observation \<Rightarrow> nat \<Rightarrow> nat \<Rightarrow> npfloat \<Rightarrow> gmix \<Rightarrow> npfloat \<Rightarrow> em_fitter"
  GMixEMPOnly :: "'p observation \<Rightarrow> nat \<Rightarrow> nat \<Rightarrow> npfloat \<Rightarrow> gmix \<Rightarrow> npfloat \<Rightarrow> em_fitter"
  gmix_pixel :: "gmix \<Rightarrow> jacobian \<Rightarrow> nat \<Rightarrow> nat \<Rightarrow> npfloat"
  render :: "gmix \<Rightarrow> jacobian \<Rightarrow> nat \<Rightarrow> nat \<Rightarrow> npfloat"
  set_flux :: "gmix \<Rightarrow> npfloat \<Rightarrow> gmix"
  uniform :: "'r \<Rightarrow> npfloat \<Rightarrow> npfloat \<Rightarrow> npfloat \<times> 'r"

text \<open>
  \<^verbatim>\<open>ngmix.Observation(image, jacobian=..., psf=...)\<close> without a weight map gets unit
  weights. \<^verbatim>\<open>gm.make_image(shape, jacobian=...)\<close> renders into a fresh buffer of
  zeros of that shape.
\<close>

definition Observation :: "image \<Rightarrow> jacobian \<Rightarrow> 'p option \<Rightarrow> 'p observation" where
  "Observation im jac ps =
     \<lparr>image = im, weight = replicate (length im) (Fin 1), obs_jacobian = jac, obs_psf = ps\<rparr>"

definition make_image :: "('p, 'r) collab \<Rightarrow> gmix \<Rightarrow> nat \<Rightarrow> jacobian \<Rightarrow> image" where
  "make_image X gm n jac = map (gmix_pixel X gm jac n) [0..<n]"

section \<open>The deblend orchestrator (shredding.py, class Shredder)\<close>

text \<open>
  The result dictionary \<^verbatim>\<open>self._result\<close>: \<^verbatim>\<open>flags\<close> and \<^verbatim>\<open>coadd_result\<close> are always
  there once \<^verbatim>\<open>shred\<close> has set it; \<^verbatim>\<open>band_results\<close> is a key only after the per-band
  stage has finished.
\<close>

record shred_result =
  flags :: int
  coadd_result :: fit_result
  band_results :: "fit_result list option"

record ('p, 'r) shredder =
  mbobs :: "'p mbobs"
  coadd_obs :: "'p observation"
  miniter :: nat
  maxiter :: nat
  tol :: npfloat
  rng :: 'r
  result :: "shred_result option"

definition shredder_get_result :: "('p, 'r) shredder \<Rightarrow> py_error + shred_result" where
  "shredder_get_result self =
     (case result self of None \<Rightarrow> Inl RuntimeError | Some r \<Rightarrow> Inr r)"

definition do_coadd_fit ::
  "('p, 'r) collab \<Rightarrow> ('p, 'r) shredder \<Rightarrow> gmix \<Rightarrow> py_error + em_fitter" where
  "do_coadd_fit X self gmix_guess =
     (let (imsky, sky) = prep_image X (image (coadd_obs self))
      in case psf (coadd_obs self) of
           Inl e \<Rightarrow> Inl e
         | Inr ps \<Rightarrow>
             Inr (GMixEMFixCen X (Observation imsky (obs_jacobian (coadd_obs self)) (Some ps))
                    (miniter self) (maxiter self) (tol self) gmix_guess sky))"

text \<open>
  \<^verbatim>\<open>_get_band_guess\<close>: a copy of the coadd mixture with every amplitude multiplied by
  \<open>1 + u\<close>, one draw \<open>u\<close> per component. The loop over the components threads the
  generator.
\<close>

fun perturb_p :: "('p, 'r) collab \<Rightarrow> gmix \<Rightarrow> 'r \<Rightarrow> gmix \<times> 'r" where
  "perturb_p X [] r = ([], r)"
| "perturb_p X (g # gs) r =
     (let (rnum, r1) = uniform X r (Fin (- (1 / 100))) (Fin (1 / 100));
          (gs', r2) = perturb_p X gs r1
      in (g\<lparr>g_p := fmul (g_p g) (fadd (Fin 1) rnum)\<rparr> # gs', r2))"

definition get_band_guess ::
  "('p, 'r) collab \<Rightarrow> fit_result \<Rightarrow> 'r \<Rightarrow> py_error + (gmix \<times> 'r)" where
  "get_band_guess X coadd_res r =
     (case res_gmix coadd_res of
        None \<Rightarrow> Inl KeyError
      | Some gm \<Rightarrow> Inr (perturb_p X gm r))"

text \<open>
  \<^verbatim>\<open>_get_band_fit\<close>: the flux-only fit of one band, seeded with the sky of the coadd
  fit. It returns the fitter and the shredder, whose generator has advanced.
\<close>

definition get_band_fit ::
  "('p, 'r) collab \<Rightarrow> ('p, 'r) shredder \<Rightarrow> 'p observation
     \<Rightarrow> py_error + (em_fitter \<times> ('p, 'r) shredder)" where
  "get_band_fit X self obs =
     (case result self of
        None \<Rightarrow> Inl AttributeError
      | Some res \<Rightarrow>
          (let coadd_res = coadd_result res;
               (imsky, _) = prep_image X (image obs);
               emobs = Observation imsky (obs_jacobian obs) None
           in case get_band_guess X coadd_res (rng self) of
                Inl e \<Rightarrow> Inl e
              | Inr (gm_guess, r') \<Rightarrow>
                  (let use_sky = res_sky coadd_res
                   in Inr (GMixEMPOnly X emobs (miniter self) (maxiter self) (tol self)
                             gm_guess use_sky,
                           self\<lparr>rng := r'\<rparr>))))"

text \<open>
  \<^verbatim>\<open>_set_band_flux_and_gmix\<close>: the calibrated flux of one band; \<open>band_flux\<close> and
  \<open>band_flux_err\<close> are its locals \<^verbatim>\<open>flux\<close> and \<^verbatim>\<open>flux_err\<close>. The last assignment
  stores \<^verbatim>\<open>flux\<close> under \<^verbatim>\<open>total_flux_err\<close>, as the source does.
\<close>

definition set_band_flux_and_gmix ::
  "('p, 'r) collab \<Rightarrow> 'p observation \<Rightarrow> em_fitter \<Rightarrow> py_error + fit_result" where
  "set_band_flux_and_gmix X obs em =
     (let res = get_result em;
          gm = get_gmix em;
          gm_convolved = get_convolved_gmix em;
          bim = make_image X gm_convolved (length (image obs)) (obs_jacobian obs)
      in case get_flux (image obs) (weight obs) bim of
           Inl e \<Rightarrow> Inl e
         | Inr (band_flux, band_flux_err) \<Rightarrow>
             (let gm' = set_flux X gm
                          (fmul band_flux
                             (fmul (scale (obs_jacobian obs)) (scale (obs_jacobian obs))))
              in Inr (res\<lparr>res_gmix := Some gm',
                          total_flux := Some band_flux,
                          total_flux_err := Some band_flux\<rparr>)))"

text \<open>
  The loop of \<^verbatim>\<open>_do_multiband_fit\<close> over the bands, in the order of \<^verbatim>\<open>self.mbobs\<close>.
  \<^verbatim>\<open>res['flags'] |= procflags.BAND_FAILURE\<close> changes the shredder's result in place;
  \<^verbatim>\<open>reslist\<close> is the list built so far.
\<close>

fun multiband_loop ::
  "('p, 'r) collab \<Rightarrow> ('p, 'r) shredder \<Rightarrow> 'p mbobs \<Rightarrow> fit_result list
     \<Rightarrow> py_error + (('p, 'r) shredder \<times> fit_result list)" where
  "multiband_loop X self [] reslist = Inr (self, reslist)"
| "multiband_loop X self (obslist # rest) reslist =
     (case first_obs obslist of
        Inl e \<Rightarrow> Inl e
      | Inr obs \<Rightarrow>
          (case get_band_fit X self obs of
             Inl e \<Rightarrow> Inl e
           | Inr (em, self1) \<Rightarrow>
               (let bres = get_result em
                in if res_flags bres \<noteq> 0 \<and> (res_flags bres AND EM_MAXITER X) = 0 then
                     (case result self1 of
                        None \<Rightarrow> Inl AttributeError
                      | Some res \<Rightarrow>
                          multiband_loop X
                            (self1\<lparr>result := Some (res\<lparr>flags := flags res OR BAND_FAILURE X\<rparr>)\<rparr>)
                            rest (reslist @ [bres]))
                   else
                     (case set_band_flux_and_gmix X obs em of
                        Inl e \<Rightarrow> Inl e
                      | Inr bres' \<Rightarrow> multiband_loop X self1 rest (reslist @ [bres'])))))"

definition do_multiband_fit ::
  "('p, 'r) collab \<Rightarrow> ('p, 'r) shredder \<Rightarrow> py_error + ('p, 'r) shredder" where
  "do_multiband_fit X self =
     (case result self of
        None \<Rightarrow> Inl AttributeError
      | Some _ \<Rightarrow>
          (case multiband_loop X self (mbobs self) [] of
             Inl e \<Rightarrow> Inl e
           | Inr (self1, reslist) \<Rightarrow>
               (case result self1 of
                  None \<Rightarrow> Inl AttributeError
                | Some res \<Rightarrow> Inr (self1\<lparr>result := Some (res\<lparr>band_results := Some reslist\<rparr>)\<rparr>))))"

text \<open>
  \<^verbatim>\<open>shred(gmix_guess)\<close>. The statement \<^verbatim>\<open>res['flags'] != cres['flags']\<close> between the two
  steps is a comparison whose value is dropped: it changes nothing. \<^verbatim>\<open>cres\<close> is the
  dictionary stored under \<^verbatim>\<open>coadd_result\<close>, so storing the mixture in it changes the
  result.
\<close>

definition shred ::
  "('p, 'r) collab \<Rightarrow> ('p, 'r) shredder \<Rightarrow> gmix \<Rightarrow> py_error + ('p, 'r) shredder" where
  "shred X self gmix_guess =
     (case do_coadd_fit X self gmix_guess of
        Inl e \<Rightarrow> Inl e
      | Inr em_coadd \<Rightarrow>
          (let cres = get_result em_coadd;
               res = \<lparr>flags = 0, coadd_result = cres, band_results = None\<rparr>
           in if res_flags cres \<noteq> 0 \<and> (res_flags cres AND EM_MAXITER X) = 0 then
                Inr (self\<lparr>result := Some (res\<lparr>flags := flags res OR COADD_FAILURE X\<rparr>)\<rparr>)
              else
                do_multiband_fit X
                  (self\<lparr>result :=
                     Some (res\<lparr>coadd_result := cres\<lparr>res_gmix := Some (get_gmix em_coadd)\<rparr>\<rparr>)\<rparr>)))"

section \<open>Python sequences\<close>

text \<open>
  \<^verbatim>\<open>xs[i]\<close> counts a negative index from the end and raises out of range; the slice
  \<^verbatim>\<open>xs[start:end]\<close> clamps both bounds and never raises. \<open>map_err\<close> is a loop that
  appends one result per element and stops at the first exception.
\<close>

definition py_index :: "'a list \<Rightarrow> int \<Rightarrow> py_error + 'a" where
  "py_index xs i =
     (let n = int (length xs); j = (if i < 0 then i + n else i)
      in if 0 \<le> j \<and> j < n then Inr (xs ! nat j) else Inl IndexError)"

definition slice_bound :: "nat \<Rightarrow> int \<Rightarrow> nat" where
  "slice_bound n i = (if i < 0 then nat (max 0 (i + int n)) else min (nat i) n)"

definition py_slice :: "'a list \<Rightarrow> int \<Rightarrow> int \<Rightarrow> 'a list" where
  "py_slice xs start end' =
     (let s = slice_bound (length xs) start; e = slice_bound (length xs) end'
      in take (e - s) (drop s xs))"

fun map_err :: "('a \<Rightarrow> py_error + 'b) \<Rightarrow> 'a list \<Rightarrow> py_error + 'b list" where
  "map_err f [] = Inr []"
| "map_err f (x # xs) =
     (case f x of
        Inl e \<Rightarrow> Inl e
      | Inr y \<Rightarrow> (case map_err f xs of Inl e \<Rightarrow> Inl e | Inr ys \<Rightarrow> Inr (y # ys)))"

text \<open>The in-place \<^verbatim>\<open>a += b\<close> and \<^verbatim>\<open>a -= b\<close> of two arrays; numpy refuses other shapes.\<close>

definition iadd :: "image \<Rightarrow> image \<Rightarrow> py_error + image" where
  "iadd a b = (if length b \<noteq> length a then Inl ValueError else Inr (arr_add a b))"

definition isub :: "image \<Rightarrow> image \<Rightarrow> py_error + image" where
  "isub a b = (if length b \<noteq> length a then Inl ValueError else Inr (arr_sub a b))"

section \<open>The model subtractor (subtractor.py, class ModelSubtractor)\<close>

text \<open>
  What \<^verbatim>\<open>ModelSubtractor\<close> reads of the shredder it is given: \<^verbatim>\<open>shredder.mbobs\<close> and the
  keys \<^verbatim>\<open>band_gmix\<close> and \<^verbatim>\<open>band_gmix_convolved\<close> of \<^verbatim>\<open>shredder.result\<close>, one mixture
  per band each.
\<close>

record 'p deblended =
  orig_mbobs :: "'p mbobs"
  band_gmix :: "gmix list"
  band_gmix_convolved :: "gmix list"

text \<open>
  The attributes of a \<^verbatim>\<open>ModelSubtractor\<close>; \<open>sub_mbobs\<close> is its \<^verbatim>\<open>self.mbobs\<close>, the
  subtracted observations. The constructor sets them in three steps; an attribute not
  yet set holds \<open>0\<close> or \<open>[]\<close> and is not read before its step.
\<close>

record 'p model_subtractor =
  sub_shredder :: "'p deblended"
  nobj :: int
  ngauss :: int
  ngauss_per :: int
  ngauss_convolved :: int
  ngauss_per_convolved :: int
  model_images :: "image list list"
  sub_mbobs :: "'p mbobs"

definition set_ngauss_per :: "'p model_subtractor \<Rightarrow> py_error + 'p model_subtractor" where
  "set_ngauss_per self =
     (case py_index (band_gmix (sub_shredder self)) 0 of
        Inl e \<Rightarrow> Inl e
      | Inr gm \<Rightarrow>
          (case py_index (band_gmix_convolved (sub_shredder self)) 0 of
             Inl e \<Rightarrow> Inl e
           | Inr gmc \<Rightarrow>
               (let ng = int (length gm); ngc = int (length gmc)
                in if nobj self = 0 then Inl ZeroDivisionError
                   else if ngc mod nobj self \<noteq> 0 then Inl ValueError
                   else Inr (self\<lparr>ngauss_convolved := ngc,
                                  ngauss_per_convolved := ngc div nobj self,
                                  ngauss := ng,
                                  ngauss_per := ng div nobj self\<rparr>))))"

definition get_object_index_range :: "'p model_subtractor \<Rightarrow> int \<Rightarrow> int \<times> int" where
  "get_object_index_range self index =
     (ngauss_per self * index, ngauss_per self * (index + 1))"

definition get_object_index_range_convolved :: "'p model_subtractor \<Rightarrow> int \<Rightarrow> int \<times> int" where
  "get_object_index_range_convolved self index =
     (ngauss_per_convolved self * index, ngauss_per_convolved self * (index + 1))"

definition get_object_gmix_data :: "'p model_subtractor \<Rightarrow> int \<Rightarrow> int \<Rightarrow> py_error + gmix" where
  "get_object_gmix_data self index band =
     (let (start, end') = get_object_index_range self index
      in case py_index (band_gmix (sub_shredder self)) band of
           Inl e \<Rightarrow> Inl e
         | Inr band_gm \<Rightarrow> Inr (py_slice band_gm start end'))"

definition get_object_gmix_data_convolved ::
  "'p model_subtractor \<Rightarrow> int \<Rightarrow> int \<Rightarrow> py_error + gmix" where
  "get_object_gmix_data_convolved self index band =
     (let (start, end') = get_object_index_range_convolved self index
      in case py_index (band_gmix_convolved (sub_shredder self)) band of
           Inl e \<Rightarrow> Inl e
         | Inr band_gm \<Rightarrow> Inr (py_slice band_gm start end'))"

text \<open>
  \<^verbatim>\<open>_build_models\<close>: for every band, in order, one model image per object, each a buffer
  of zeros of the shape of the band's image that the renderer fills.
\<close>

definition build_band_models ::
  "('p, 'r) collab \<Rightarrow> 'p model_subtractor \<Rightarrow> int \<times> 'p obslist \<Rightarrow> py_error + image list" where
  "build_band_models X self bo =
     (case first_obs (snd bo) of
        Inl e \<Rightarrow> Inl e
      | Inr obs \<Rightarrow>
          map_err
            (\<lambda>iobj. case get_object_gmix_data_convolved self iobj (fst bo) of
                       Inl e \<Rightarrow> Inl e
                     | Inr gm \<Rightarrow>
                         Inr (map (render X gm (obs_jacobian obs) (length (image obs)))
                                [0..<length (image obs)]))
            [0..nobj self - 1])"

definition build_models ::
  "('p, 'r) collab \<Rightarrow> 'p model_subtractor \<Rightarrow> py_error + 'p model_subtractor" where
  "build_models X self =
     (let mbobs_orig = orig_mbobs (sub_shredder self)
      in case map_err (build_band_models X self)
                (zip (map int [0..<length mbobs_orig]) mbobs_orig) of
           Inl e \<Rightarrow> Inl e
         | Inr ims \<Rightarrow> Inr (self\<lparr>model_images := ims\<rparr>))"

text \<open>
  \<^verbatim>\<open>_build_subtracted_mbobs\<close>: a copy of the first observation of every band, with every
  model image of the band subtracted from its image in turn.
\<close>

fun subtract_all :: "image \<Rightarrow> image list \<Rightarrow> py_error + image" where
  "subtract_all im [] = Inr im"
| "subtract_all im (model_image # rest) =
     (case isub im model_image of
        Inl e \<Rightarrow> Inl e
      | Inr im' \<Rightarrow> subtract_all im' rest)"

definition build_diff_obslist :: "'p obslist \<times> image list \<Rightarrow> py_error + 'p obslist" where
  "build_diff_obslist ob =
     (case first_obs (fst ob) of
        Inl e \<Rightarrow> Inl e
      | Inr obs \<Rightarrow>
          (case subtract_all (image obs) (snd ob) of
             Inl e \<Rightarrow> Inl e
           | Inr im' \<Rightarrow> Inr [obs\<lparr>image := im'\<rparr>]))"

definition build_subtracted_mbobs :: "'p model_subtractor \<Rightarrow> py_error + 'p model_subtractor" where
  "build_subtracted_mbobs self =
     (case map_err build_diff_obslist
             (zip (orig_mbobs (sub_shredder self)) (model_images self)) of
        Inl e \<Rightarrow> Inl e
      | Inr m \<Rightarrow> Inr (self\<lparr>sub_mbobs := m\<rparr>))"

definition ModelSubtractor ::
  "('p, 'r) collab \<Rightarrow> 'p deblended \<Rightarrow> int \<Rightarrow> py_error + 'p model_subtractor" where
  "ModelSubtractor X shredder_arg nobj_arg =
     (case set_ngauss_per
             \<lparr>sub_shredder = shredder_arg, nobj = nobj_arg, ngauss = 0, ngauss_per = 0,
              ngauss_convolved = 0, ngauss_per_convolved = 0, model_images = [],
              sub_mbobs = []\<rparr> of
        Inl e \<Rightarrow> Inl e
      | Inr self1 \<Rightarrow>
          (case build_models X self1 of
             Inl e \<Rightarrow> Inl e
           | Inr self2 \<Rightarrow> build_subtracted_mbobs self2))"

text \<open>
  \<^verbatim>\<open>_add_or_subtract_model_image(index, type)\<close> changes the images of \<^verbatim>\<open>self.mbobs\<close> in
  place, band after band. An exception stops the loop with the earlier bands already
  changed, so the function returns the observations as they are left and the
  exception, if any. \<^verbatim>\<open>zip\<close> stops at the shorter of its two lists.
\<close>

fun add_or_subtract_bands ::
  "int \<Rightarrow> string \<Rightarrow> 'p mbobs \<Rightarrow> image list list \<Rightarrow> 'p mbobs \<times> py_error option" where
  "add_or_subtract_bands index type [] ims = ([], None)"
| "add_or_subtract_bands index type (obslist # rest) [] = (obslist # rest, None)"
| "add_or_subtract_bands index type (obslist # rest) (band_model_images # others) =
     (case first_obs obslist of
        Inl e \<Rightarrow> (obslist # rest, Some e)
      | Inr obs \<Rightarrow>
          (case py_index band_model_images index of
             Inl e \<Rightarrow> (obslist # rest, Some e)
           | Inr model_image \<Rightarrow>
               (case (if type = ''add'' then iadd (image obs) model_image
                      else isub (image obs) model_image) of
                  Inl e \<Rightarrow> (obslist # rest, Some e)
                | Inr im' \<Rightarrow>
                    (let (rest', exc) = add_or_subtract_bands index type rest others
                     in ((obs\<lparr>image := im'\<rparr> # tl obslist) # rest', exc)))))"

definition add_or_subtract_model_image ::
  "'p model_subtractor \<Rightarrow> int \<Rightarrow> string \<Rightarrow> 'p model_subtractor \<times> py_error option" where
  "add_or_subtract_model_image self index type =
     (let (m, exc) = add_or_subtract_bands index type (sub_mbobs self) (model_images self)
      in (self\<lparr>sub_mbobs := m\<rparr>, exc))"

text \<open>
  \<^verbatim>\<open>with subtractor.add_source(index): body\<close>. The body is the caller's code: it gets the
  subtractor as the scope opened it and leaves it in some state, normally or with an
  exception. The result is the subtractor after the scope and the exception that leaves
  the \<^verbatim>\<open>with\<close> statement, if any. An index out of range raises before anything is
  changed; an exception while adding leaves before the \<^verbatim>\<open>try\<close>; the \<^verbatim>\<open>finally\<close> clause
  subtracts whether the body raised or not, and an exception of its own replaces the
  body's.
\<close>

definition add_source ::
  "'p model_subtractor \<Rightarrow> int
     \<Rightarrow> ('p model_subtractor \<Rightarrow> 'p model_subtractor \<times> py_error option)
     \<Rightarrow> 'p model_subtractor \<times> py_error option" where
  "add_source self index body =
     (let imax = nobj self - 1
      in if index < 0 \<or> index > imax then (self, Some IndexError)
         else
           (case add_or_subtract_model_image self index ''add'' of
              (self1, Some e) \<Rightarrow> (self1, Some e)
            | (self1, None) \<Rightarrow>
                (let (self2, body_exc) = body self1
                 in case add_or_subtract_model_image self2 index ''subtract'' of
                      (self3, Some e) \<Rightarrow> (self3, Some e)
                    | (self3, None) \<Rightarrow> (self3, body_exc))))"

subsection \<open>The stamp window (subtractor.py, \_get\_bbox and \_get\_start\_end)\<close>

text \<open>
  \<^verbatim>\<open>int(x)\<close> of a float drops the fraction (rounds toward zero) and raises on an
  infinity or NaN.
\<close>

definition py_int :: "npfloat \<Rightarrow> py_error + int" where
  "py_int x =
     (case x of
        Fin a \<Rightarrow> Inr (if 0 \<le> a then \<lfloor>a\<rfloor> else \<lceil>a\<rceil>)
      | PInf \<Rightarrow> Inl OverflowError
      | NInf \<Rightarrow> Inl OverflowError
      | NaN \<Rightarrow> Inl ValueError)"

definition get_start_end :: "int \<Rightarrow> int \<Rightarrow> int \<Rightarrow> py_error + (int \<times> int)" where
  "get_start_end image_dim cen rad =
     (let start = cen - rad; end' = cen + rad + 1
      in if start < 0 \<or> start > image_dim then Inl IndexError
         else Inr (start, end'))"

text \<open>
  \<^verbatim>\<open>_get_bbox(image_shape, row, col, stamp_size)\<close>; the stamp size is an integer, the
  centre a pair of floats. The result is \<open>(row_start, row_end, col_start, col_end)\<close>.
\<close>

definition get_bbox ::
  "int \<times> int \<Rightarrow> npfloat \<Rightarrow> npfloat \<Rightarrow> int \<Rightarrow> py_error + (int \<times> int \<times> int \<times> int)" where
  "get_bbox image_shape row col stamp_size =
     (case py_int row of
        Inl e \<Rightarrow> Inl e
      | Inr irow \<Rightarrow>
          (case py_int col of
             Inl e \<Rightarrow> Inl e
           | Inr icol \<Rightarrow>
               (let rad = stamp_size div 2
                in case get_start_end (fst image_shape) irow rad of
                     Inl e \<Rightarrow> Inl e
                   | Inr (row_start, row_end) \<Rightarrow>
                       (case get_start_end (snd image_shape) icol rad of
                          Inl e \<Rightarrow> Inl e
                        | Inr (col_start, col_end) \<Rightarrow>
                            Inr (row_start, row_end, col_start, col_end)))))"

section \<open>A small run\<close>

text \<open>
  Concrete collaborators and inputs for the worked examples below: one band of two
  pixels, fitters that return a result with given flags and an empty mixture, renderers
  that give every pixel the value one, and a generator that always draws zero.
  \<open>EM_MAXITER\<close> is \<open>2\<close> as in ngmix; the two failure flags stand for two distinct bits.
\<close>

definition demo_fit :: "int \<Rightarrow> em_fitter" where
  "demo_fit fl =
     \<lparr>get_result = \<lparr>res_flags = fl, res_sky = Fin 0, res_gmix = None,
                     total_flux = None, total_flux_err = None\<rparr>,
      get_gmix = [], get_convolved_gmix = []\<rparr>"

definition demo_collab :: "int \<Rightarrow> int \<Rightarrow> (unit, unit) collab" where
  "demo_collab coadd_flags band_flags =
     \<lparr>EM_MAXITER = 2, COADD_FAILURE = 4, BAND_FAILURE = 8,
      prep_image = (\<lambda>im. (im, Fin 0)),
      GMixEMFixCen = (\<lambda>obs mi ma t g sky. demo_fit coadd_flags),
      GMixEMPOnly = (\<lambda>obs mi ma t g sky. demo_fit band_flags),
      gmix_pixel = (\<lambda>gm jac n k. Fin 1),
      render = (\<lambda>gm jac n k. Fin 1),
      set_flux = (\<lambda>gm f. gm),
      uniform = (\<lambda>r lo hi. (Fin 0, r))\<rparr>"

definition demo_jacobian :: jacobian where
  "demo_jacobian =
     \<lparr>jac_row = Fin 0, jac_col = Fin 0, dvdrow = Fin 1, dvdcol = Fin 0,
      dudrow = Fin 0, dudcol = Fin 1, scale = Fin 1\<rparr>"

definition demo_obs :: "unit observation" where
  "demo_obs =
     \<lparr>image = [Fin 1, Fin 2], weight = [Fin 1, Fin 1], obs_jacobian = demo_jacobian,
      obs_psf = Some ()\<rparr>"

definition demo_shredder :: "(unit, unit) shredder" where
  "demo_shredder =
     \<lparr>mbobs = [[demo_obs]], coadd_obs = demo_obs, miniter = 10, maxiter = 1000,
      tol = Fin (1 / 1000), rng = (), result = None\<rparr>"

definition demo_gauss :: gauss where
  "demo_gauss =
     \<lparr>g_p = Fin 1, g_row = Fin 0, g_col = Fin 0, g_irr = Fin 1, g_irc = Fin 0, g_icc = Fin 1\<rparr>"

definition demo_deblended :: "nat \<Rightarrow> nat \<Rightarrow> unit deblended" where
  "demo_deblended n nc =
     \<lparr>orig_mbobs = [[demo_obs]], band_gmix = [replicate n demo_gauss],
      band_gmix_convolved = [replicate nc demo_gauss]\<rparr>"

section \<open>Predicates of the statements\<close>

text \<open>
  The test both stages apply to a fit's flags: they are nonzero and the bit
  \<open>EM_MAXITER\<close> is not set in them.
\<close>

definition cannot_proceed :: "('p, 'r) collab \<Rightarrow> fit_result \<Rightarrow> bool" where
  "cannot_proceed X res = (res_flags res \<noteq> 0 \<and> (res_flags res AND EM_MAXITER X) = 0)"

text \<open>
  \<open>band_entry X obs em bres\<close>: \<open>bres\<close> is the entry the per-band stage appends for a
  band whose first observation is \<open>obs\<close> and whose fitter is \<open>em\<close>: the fitter's own
  result when the fit cannot proceed, the calibrated result otherwise.
  \<open>band_result_of X self cres obslist bres\<close>: \<open>bres\<close> is such an entry for the band
  \<open>obslist\<close>, its fitter run by the shredder \<open>self\<close> with the coadd result \<open>cres\<close>
  stored, in some state of the generator and of the aggregate flags.
\<close>

definition band_entry ::
  "('p, 'r) collab \<Rightarrow> 'p observation \<Rightarrow> em_fitter \<Rightarrow> fit_result \<Rightarrow> bool" where
  "band_entry X obs em bres =
     (if cannot_proceed X (get_result em) then bres = get_result em
      else set_band_flux_and_gmix X obs em = Inr bres)"

definition band_result_of ::
  "('p, 'r) collab \<Rightarrow> ('p, 'r) shredder \<Rightarrow> fit_result \<Rightarrow> 'p obslist \<Rightarrow> fit_result \<Rightarrow> bool" where
  "band_result_of X self cres obslist bres =
     (\<exists>obs rg fl em s1.
        first_obs obslist = Inr obs \<and>
        get_band_fit X
          (self\<lparr>rng := rg,
                result := Some \<lparr>flags = fl, coadd_result = cres, band_results = None\<rparr>\<rparr>) obs
          = Inr (em, s1) \<and>
        band_entry X obs em bres)"

text \<open>
  \<open>sum_images n ims\<close> is the sum of the images \<open>ims\<close> of \<open>n\<close> pixels each.
  \<open>with_source m ims index\<close> is the observation set \<open>m\<close> with, in every band, the model
  image of object \<open>index\<close> added to the image of the band's first observation.
\<close>

definition sum_images :: "nat \<Rightarrow> image list \<Rightarrow> image" where
  "sum_images n ims = foldl arr_add (replicate n (Fin 0)) ims"

definition add_to_first :: "nat \<Rightarrow> 'p obslist \<Rightarrow> image list \<Rightarrow> 'p obslist" where
  "add_to_first i obslist band_model_images =
     (case obslist of
        [] \<Rightarrow> []
      | obs # rest \<Rightarrow> obs\<lparr>image := arr_add (image obs) (band_model_images ! i)\<rparr> # rest)"

definition with_source :: "'p mbobs \<Rightarrow> image list list \<Rightarrow> int \<Rightarrow> 'p mbobs" where
  "with_source m ims index = map2 (add_to_first (nat index)) m ims"

text \<open>
  A subtractor is in order for an object when it has one list of model images per band,
  and in every band there is a first observation and a model image of the object, of the
  shape of that observation's image, both with finite pixel values.
\<close>

definition band_ok :: "int \<Rightarrow> 'p obslist \<Rightarrow> image list \<Rightarrow> bool" where
  "band_ok index obslist band_model_images =
     (case obslist of
        [] \<Rightarrow> False
      | obs # rest \<Rightarrow>
          nat index < length band_model_images \<and>
          length (band_model_images ! nat index) = length (image obs) \<and>
          finite_image (image obs) \<and>
          finite_image (band_model_images ! nat index))"

definition subtractor_ok :: "'p model_subtractor \<Rightarrow> int \<Rightarrow> bool" where
  "subtractor_ok self index = list_all2 (band_ok index) (sub_mbobs self) (model_images self)"

text \<open>
  \<open>object_model X sh n band obs i\<close> is the model image of object \<open>i\<close> of \<open>n\<close> in a band:
  the components of the object's index range of the band's convolved mixture, rendered
  over the pixels of \<open>obs\<close>.
\<close>

definition object_model ::
  "('p, 'r) collab \<Rightarrow> 'p deblended \<Rightarrow> int \<Rightarrow> nat \<Rightarrow> 'p observation \<Rightarrow> nat \<Rightarrow> image" where
  "object_model X sh n band obs i =
     (let per = int (length (band_gmix_convolved sh ! 0)) div n
      in map (render X (py_slice (band_gmix_convolved sh ! band) (per * int i) (per * (int i + 1)))
                (obs_jacobian obs) (length (image obs)))
           [0..<length (image obs)])"

text \<open>
  \<open>subtracted_band X sh n band obslist ims diff\<close>: in the band, \<open>ims\<close> are the model
  images of the \<open>n\<close> objects, and \<open>diff\<close> is the one observation that is the band's first
  with the sum of \<open>ims\<close> subtracted from its image and nothing else changed; adding the
  images back one by one gives the original image.
\<close>

definition subtracted_band ::
  "('p, 'r) collab \<Rightarrow> 'p deblended \<Rightarrow> int \<Rightarrow> nat \<Rightarrow> 'p obslist \<Rightarrow> image list
     \<Rightarrow> 'p obslist \<Rightarrow> bool" where
  "subtracted_band X sh n band obslist ims diff =
     (case obslist of
        [] \<Rightarrow> False
      | obs # rest \<Rightarrow>
          ims = map (object_model X sh n band obs) [0..<nat n] \<and>
          diff = [obs\<lparr>image := arr_sub (image obs) (sum_images (length (image obs)) ims)\<rparr>] \<and>
          foldl arr_add (arr_sub (image obs) (sum_images (length (image obs)) ims)) ims
            = image obs)"

text \<open>
  \<open>finite_band obslist\<close>: the image of the band's first observation has finite pixel
  values. \<open>opened self index\<close> is the subtractor as the scope of \<^verbatim>\<open>add_source(index)\<close>
  hands it to its body: the model images of the object added in every band.
\<close>

definition finite_band :: "'p obslist \<Rightarrow> bool" where
  "finite_band obslist = (case obslist of [] \<Rightarrow> True | obs # rest \<Rightarrow> finite_image (image obs))"

definition opened :: "'p model_subtractor \<Rightarrow> int \<Rightarrow> 'p model_subtractor" where
  "opened self index =
     self\<lparr>sub_mbobs := with_source (sub_mbobs self) (model_images self) index\<rparr>"

text \<open>
  The subtractor that the constructor builds for the small run with two objects of one
  component each: both model images are one everywhere, so the subtracted image is the
  image \<open>[1, 2]\<close> less two.
\<close>

definition demo_subtractor :: "unit model_subtractor" where
  "demo_subtractor =
     \<lparr>sub_shredder = demo_deblended 2 2, nobj = 2, ngauss = 2, ngauss_per = 1,
      ngauss_convolved = 2, ngauss_per_convolved = 1,
      model_images = [[[Fin 1, Fin 1], [Fin 1, Fin 1]]],
      sub_mbobs = [[demo_obs\<lparr>image := [Fin (- 1), Fin 0]\<rparr>]]\<rparr>"

section \<open>Evaluation rules\<close>

lemmas get_flux_unfold = get_flux_def get_flux_pass_def read_local_def

lemmas arr_eval =
  arr_scale_def arr_sum_def arr_mul_def arr_square_def arr_sub_def arr_add_def fsub_def
  inf_of_sign_def

lemmas demo_defs =
  demo_fit_def demo_collab_def demo_jacobian_def demo_obs_def demo_shredder_def
  demo_gauss_def demo_deblended_def

section \<open>The template flux estimator\<close>

text \<open>
  Claim C7. For a data image, a weight map and a template of one shape, \<^verbatim>\<open>get_flux\<close>
  never raises. With \<open>t\<close> the template scaled to unit sum, \<open>S_xy\<close> the sum of
  \<open>t * im * wt\<close> and \<open>S_xx\<close> the sum of \<open>t * t * wt\<close>: when \<open>S_xx == 0\<close> is false, the
  flux returned is \<open>S_xy / S_xx\<close>, and the error returned is the square root of
  \<open>chi2 / S_xx / (n_pixels - 1)\<close>, \<open>chi2\<close> being the sum of \<open>(flux * t - im)\<^sup>2 * wt\<close>, when
  that argument is \<open>\<ge> 0\<close>, and the sentinel \<open>1e9\<close> when it is not (negative or NaN).
\<close>

theorem get_flux_formula:
  assumes "length wt = length im" and "length model_in = length im"
  shows "let t = arr_scale model_in (fdiv (Fin 1) (arr_sum model_in));
             S_xy = arr_sum (arr_mul (arr_mul t im) wt);
             S_xx = arr_sum (arr_mul (arr_mul t t) wt);
             f = fdiv S_xy S_xx;
             chi = arr_sum (arr_mul (arr_square (arr_sub (arr_scale t f) im)) wt);
             arg = fdiv (fdiv chi S_xx) (Fin (of_int (int (length im) - 1)))
         in (\<exists>r. get_flux im wt model_in = Inr r) \<and>
            (\<not> feq S_xx (Fin 0) \<longrightarrow>
               get_flux im wt model_in =
                 Inr (f, if fge arg (Fin 0) then fsqrt arg else Fin 1000000000))"
  using assms by (simp add: get_flux_unfold Let_def)

text \<open>
  The data \<open>[1, 2]\<close> with unit weights and a flat template: \<open>t = [1/2, 1/2]\<close>,
  \<open>S_xy = 3/2\<close>, \<open>S_xx = 1/2\<close>, flux \<open>3\<close>, \<open>chi2 = 1/2\<close> and error \<open>1\<close>.
\<close>

theorem get_flux_formula_witness:
  "length [Fin 1, Fin 1] = length [Fin 1, Fin 2] \<and>
   \<not> feq (arr_sum (arr_mul (arr_mul (arr_scale [Fin 1, Fin 1] (fdiv (Fin 1) (arr_sum [Fin 1, Fin 1])))
                                   (arr_scale [Fin 1, Fin 1] (fdiv (Fin 1) (arr_sum [Fin 1, Fin 1]))))
                          [Fin 1, Fin 1])) (Fin 0) \<and>
   get_flux [Fin 1, Fin 2] [Fin 1, Fin 1] [Fin 1, Fin 1] = Inr (Fin 3, Fin 1)"
  using get_flux_formula [of "[Fin 1, Fin 1]" "[Fin 1, Fin 2]" "[Fin 1, Fin 1]"]
  by (simp add: arr_eval Let_def)

text \<open>
  The guard the estimator has: when the weighted template energy \<open>S_xx\<close>, computed from
  the template scaled to unit sum, compares equal to zero, \<^verbatim>\<open>get_flux\<close> leaves the loop
  after the first pass and returns the two sentinels \<open>-9999e9\<close> and \<open>1e9\<close>.
\<close>

lemma get_flux_zero_energy:
  assumes "length wt = length im" and "length model_in = length im"
    and "feq (arr_sum (arr_mul (arr_mul (arr_scale model_in (fdiv (Fin 1) (arr_sum model_in)))
                                   (arr_scale model_in (fdiv (Fin 1) (arr_sum model_in)))) wt))
             (Fin 0)"
  shows "get_flux im wt model_in = Inr (Fin (- 9999000000000), Fin 1000000000)"
  using assms by (simp add: get_flux_unfold Let_def)

text \<open>
  Claim C8, at a template of zeros. The template's sum is zero, and the scaling
  \<^verbatim>\<open>model *= 1.0/model.sum()\<close> has no guard: \<open>1.0 / 0.0\<close> is infinite, every pixel of the
  scaled template is \<open>0 * inf\<close>, that is NaN, and so are \<open>S_xy\<close> and \<open>S_xx\<close>. The test
  \<^verbatim>\<open>msq_sum == 0\<close> is false for NaN, the loop goes on, and for the data \<open>[1, 2]\<close> with
  unit weights the flux returned is NaN, not the sentinel \<open>-9999e9\<close>; only the error is
  the sentinel \<open>1e9\<close>. A weight map of zeros under a flat template, the other degenerate
  case, does return both sentinels.
\<close>

theorem get_flux_zero_template_returns_nan:
  "get_flux [Fin 1, Fin 2] [Fin 1, Fin 1] [Fin 0, Fin 0] = Inr (NaN, Fin 1000000000) \<and>
   get_flux [Fin 1, Fin 2] [Fin 1, Fin 1] [Fin 0, Fin 0]
     \<noteq> Inr (Fin (- 9999000000000), Fin 1000000000) \<and>
   get_flux [Fin 1, Fin 2] [Fin 0, Fin 0] [Fin 1, Fin 1]
     = Inr (Fin (- 9999000000000), Fin 1000000000)"
  by (simp add: get_flux_unfold arr_eval Let_def)

section \<open>The flux stored for a band\<close>

text \<open>
  Claim C2, at a band where flux and uncertainty differ. For the data \<open>[1, 2]\<close> with unit
  weights and a flat rendered model the estimator returns flux \<open>3\<close> and uncertainty \<open>1\<close>;
  the band result holds \<open>3\<close> under \<^verbatim>\<open>total_flux\<close> and \<open>3\<close>, not \<open>1\<close>, under
  \<^verbatim>\<open>total_flux_err\<close>.
\<close>

theorem set_band_flux_stores_flux_as_error:
  "get_flux (image demo_obs) (weight demo_obs)
      (make_image (demo_collab 0 0) [] (length (image demo_obs)) (obs_jacobian demo_obs))
     = Inr (Fin 3, Fin 1) \<and>
   set_band_flux_and_gmix (demo_collab 0 0) demo_obs (demo_fit 0) =
     Inr \<lparr>res_flags = 0, res_sky = Fin 0, res_gmix = Some [],
          total_flux = Some (Fin 3), total_flux_err = Some (Fin 3)\<rparr>"
  by (simp add: set_band_flux_and_gmix_def make_image_def get_flux_unfold arr_eval demo_defs
      Let_def upt_rec)

section \<open>The stamp window\<close>

text \<open>
  Claim C3, at a window that ends past the image. In an image of \<open>100 \<times> 100\<close> pixels, a
  stamp of size \<open>11\<close> centred on row \<open>95\<close> has the rows \<open>90\<close> to \<open>101\<close>. Only the start
  of the window is compared with the image, so no exception is raised and the window
  is returned.
\<close>

theorem get_bbox_end_past_image:
  "get_start_end 100 95 5 = Inr (90, 101) \<and>
   get_bbox (100, 100) (Fin 95) (Fin 50) 11 = Inr (90, 101, 45, 56)"
  by (simp add: get_start_end_def get_bbox_def py_int_def Let_def)

section \<open>Components per object\<close>

text \<open>
  Claim C4, at mixtures of three components before the PSF and six after it, for two
  objects. Only the convolved count is tested, so the constructor succeeds with one
  component per object before the PSF: the objects get the ranges \<open>[0, 1)\<close> and
  \<open>[1, 2)\<close>, and the third component belongs to no object.
\<close>

theorem ModelSubtractor_accepts_indivisible_ngauss:
  "\<exists>self. ModelSubtractor (demo_collab 0 0) (demo_deblended 3 6) 2 = Inr self \<and>
      ngauss self = 3 \<and> ngauss_per self = 1 \<and>
      get_object_index_range self 0 = (0, 1) \<and>
      get_object_index_range self 1 = (1, 2)"
  by (simp add: ModelSubtractor_def set_ngauss_per_def py_index_def build_models_def
      build_band_models_def get_object_gmix_data_convolved_def
      get_object_index_range_convolved_def get_object_index_range_def py_slice_def
      slice_bound_def first_obs_def build_subtracted_mbobs_def build_diff_obslist_def
      isub_def demo_defs Let_def upt_rec upto.simps arr_eval)

section \<open>The per-band loop\<close>

lemma get_band_fit_rng:
  assumes "get_band_fit X self obs = Inr (em, self1)"
  shows "\<exists>rg. self1 = self\<lparr>rng := rg\<rparr>"
  using assms
  by (auto simp: get_band_fit_def Let_def split: option.splits sum.splits prod.splits)

lemma set_band_flux_flags:
  assumes "set_band_flux_and_gmix X obs em = Inr bres"
  shows "res_flags bres = res_flags (get_result em)"
  using assms
  by (auto simp: set_band_flux_and_gmix_def Let_def split: sum.splits prod.splits)

lemma band_entry_gate:
  assumes "band_entry X obs em bres"
  shows "cannot_proceed X bres = cannot_proceed X (get_result em)"
  using assms set_band_flux_flags [of X obs em bres]
  by (auto simp: band_entry_def cannot_proceed_def split: if_splits)

text \<open>One iteration: the entry appended, the flags after it and the rest of the loop.\<close>

lemma multiband_loop_Cons:
  assumes "multiband_loop X self (ol # rest) acc = Inr (self', reslist)"
    and "result self = Some r"
  shows "\<exists>obs em rg bres fl.
           first_obs ol = Inr obs \<and>
           get_band_fit X self obs = Inr (em, self\<lparr>rng := rg\<rparr>) \<and>
           band_entry X obs em bres \<and>
           fl = (if cannot_proceed X bres then flags r OR BAND_FAILURE X else flags r) \<and>
           multiband_loop X (self\<lparr>rng := rg, result := Some (r\<lparr>flags := fl\<rparr>)\<rparr>) rest (acc @ [bres])
             = Inr (self', reslist)"
proof -
  from assms(1) obtain obs where obs: "first_obs ol = Inr obs"
    by (auto split: sum.splits)
  from assms(1) obs obtain em s1 where fit: "get_band_fit X self obs = Inr (em, s1)"
    by (auto split: sum.splits)
  from get_band_fit_rng [OF fit] obtain rg where s1: "s1 = self\<lparr>rng := rg\<rparr>" by blast
  have res1: "result s1 = Some r" using s1 assms(2) by simp
  have same: "self\<lparr>rng := rg, result := Some (r\<lparr>flags := flags r\<rparr>)\<rparr> = s1"
    using s1 assms(2) by simp
  show ?thesis
  proof (cases "cannot_proceed X (get_result em)")
    case True
    with assms(1) obs fit res1 s1
    have "multiband_loop X (self\<lparr>rng := rg, result := Some (r\<lparr>flags := flags r OR BAND_FAILURE X\<rparr>)\<rparr>)
            rest (acc @ [get_result em]) = Inr (self', reslist)"
      by (simp add: cannot_proceed_def Let_def)
    moreover have "band_entry X obs em (get_result em)"
      using True by (simp add: band_entry_def)
    ultimately show ?thesis using obs fit s1 True
      by (intro exI [of _ obs] exI [of _ em] exI [of _ rg] exI [of _ "get_result em"]
            exI [of _ "flags r OR BAND_FAILURE X"]) simp
  next
    case False
    with assms(1) obs fit obtain bres where
      b: "set_band_flux_and_gmix X obs em = Inr bres"
      and l: "multiband_loop X s1 rest (acc @ [bres]) = Inr (self', reslist)"
      by (auto simp: cannot_proceed_def Let_def split: sum.splits)
    have be: "band_entry X obs em bres" using False b by (simp add: band_entry_def)
    have nb: "\<not> cannot_proceed X bres" using band_entry_gate [OF be] False by simp
    have "multiband_loop X (self\<lparr>rng := rg, result := Some (r\<lparr>flags := flags r\<rparr>)\<rparr>) rest (acc @ [bres])
            = Inr (self', reslist)"
      using l same by simp
    with obs fit be s1 nb show ?thesis
      by (intro exI [of _ obs] exI [of _ em] exI [of _ rg] exI [of _ bres]
            exI [of _ "flags r"]) simp
  qed
qed

lemma take_snoc_nth:
  assumes "take (Suc n) xs = ys @ [y]" and "length ys = n"
  shows "take n xs = ys \<and> xs ! n = y"
proof -
  have "length (take (Suc n) xs) = Suc n" using assms by simp
  then have len: "n < length xs" by simp
  then have "take (Suc n) xs = take n xs @ [xs ! n]" by (rule take_Suc_conv_app_nth)
  with assms(1) have "take n xs @ [xs ! n] = ys @ [y]" by simp
  then show ?thesis by simp
qed

text \<open>
  The loop changes the generator and the aggregate flags only, and appends one entry per
  band to the list it was given.
\<close>

lemma multiband_loop_shape:
  assumes "multiband_loop X self bands acc = Inr (self', reslist)"
    and "result self = Some r"
  shows "(\<exists>rg fl. self' = self\<lparr>rng := rg, result := Some (r\<lparr>flags := fl\<rparr>)\<rparr>) \<and>
         length reslist = length acc + length bands \<and>
         take (length acc) reslist = acc"
  using assms
proof (induction bands arbitrary: self acc r)
  case Nil
  then have "self' = self" and "reslist = acc" by simp_all
  moreover have "self\<lparr>result := Some r\<rparr> = self"
    by (simp add: Nil.prems(2) [symmetric])
  ultimately show ?case
    by (intro conjI exI [of _ "rng self"] exI [of _ "flags r"]) simp_all
next
  case (Cons ol rest)
  from multiband_loop_Cons [OF Cons.prems] obtain obs em rg bres fl where
    loop: "multiband_loop X (self\<lparr>rng := rg, result := Some (r\<lparr>flags := fl\<rparr>)\<rparr>) rest (acc @ [bres])
             = Inr (self', reslist)"
    by blast
  have res: "result (self\<lparr>rng := rg, result := Some (r\<lparr>flags := fl\<rparr>)\<rparr>) = Some (r\<lparr>flags := fl\<rparr>)"
    by simp
  from Cons.IH [OF loop res] obtain rg' fl' where
    s': "self' = self\<lparr>rng := rg, result := Some (r\<lparr>flags := fl\<rparr>)\<rparr>
                   \<lparr>rng := rg', result := Some (r\<lparr>flags := fl\<rparr>\<lparr>flags := fl'\<rparr>)\<rparr>"
    and len: "length reslist = length (acc @ [bres]) + length rest"
    and tk: "take (length (acc @ [bres])) reslist = acc @ [bres]"
    by blast
  have A: "self' = self\<lparr>rng := rg', result := Some (r\<lparr>flags := fl'\<rparr>)\<rparr>" using s' by simp
  have C: "take (length acc) reslist = acc"
    using take_snoc_nth [of "length acc" reslist acc bres] tk by simp
  show ?case
  proof (intro conjI)
    show "\<exists>rg fl. self' = self\<lparr>rng := rg, result := Some (r\<lparr>flags := fl\<rparr>)\<rparr>"
      using A by (intro exI [of _ rg'] exI [of _ fl'])
    show "length reslist = length acc + length (ol # rest)" using len by simp
    show "take (length acc) reslist = acc" by (rule C)
  qed
qed

text \<open>
  The aggregate flags after the loop: \<open>BAND_FAILURE\<close> has been ORed in when an appended
  entry cannot proceed, and nothing else has changed.
\<close>

lemma multiband_loop_flags:
  assumes "multiband_loop X self bands acc = Inr (self', reslist)"
    and "result self = Some r"
  shows "\<exists>r'. result self' = Some r' \<and>
           flags r' = (if list_all (\<lambda>b. \<not> cannot_proceed X b) (drop (length acc) reslist)
                       then flags r else flags r OR BAND_FAILURE X)"
  using assms
proof (induction bands arbitrary: self acc r)
  case Nil
  then show ?case by simp
next
  case (Cons ol rest)
  from multiband_loop_Cons [OF Cons.prems(1,2)] obtain obs em rg bres fl where
    fl: "fl = (if cannot_proceed X bres then flags r OR BAND_FAILURE X else flags r)"
    and loop: "multiband_loop X (self\<lparr>rng := rg, result := Some (r\<lparr>flags := fl\<rparr>)\<rparr>) rest (acc @ [bres])
                 = Inr (self', reslist)"
    by blast
  have res: "result (self\<lparr>rng := rg, result := Some (r\<lparr>flags := fl\<rparr>)\<rparr>) = Some (r\<lparr>flags := fl\<rparr>)"
    by simp
  from multiband_loop_shape [OF loop res]
  have len: "length reslist = length (acc @ [bres]) + length rest"
    and tk: "take (length (acc @ [bres])) reslist = acc @ [bres]" by blast+
  have nth: "reslist ! length acc = bres"
    using take_snoc_nth [of "length acc" reslist acc bres] tk by simp
  have lt: "length acc < length reslist" using len by simp
  have dr: "drop (length acc) reslist = bres # drop (length (acc @ [bres])) reslist"
    using Cons_nth_drop_Suc [OF lt] nth by simp
  from Cons.IH [OF loop res] obtain r' where
    r': "result self' = Some r'"
    and f': "flags r' =
      (if list_all (\<lambda>b. \<not> cannot_proceed X b) (drop (length (acc @ [bres])) reslist)
       then flags (r\<lparr>flags := fl\<rparr>) else flags (r\<lparr>flags := fl\<rparr>) OR BAND_FAILURE X)"
    by blast
  have "flags r' = (if list_all (\<lambda>b. \<not> cannot_proceed X b) (drop (length acc) reslist)
                    then flags r else flags r OR BAND_FAILURE X)"
    using f' fl dr by (simp add: or.assoc)
  with r' show ?case by blast
qed

text \<open>The entry at position \<open>i\<close> of the appended part comes from band \<open>i\<close>.\<close>

lemma multiband_loop_order:
  assumes "multiband_loop X self bands acc = Inr (self', reslist)"
    and "result self = Some \<lparr>flags = f, coadd_result = cres, band_results = None\<rparr>"
    and "i < length bands"
  shows "band_result_of X self cres (bands ! i) (reslist ! (length acc + i))"
  using assms
proof (induction bands arbitrary: self acc f i)
  case Nil
  then show ?case by simp
next
  case (Cons ol rest)
  let ?r = "\<lparr>flags = f, coadd_result = cres, band_results = None\<rparr>"
  from multiband_loop_Cons [OF Cons.prems(1,2)] obtain obs em rg bres fl where
    obs: "first_obs ol = Inr obs"
    and fit: "get_band_fit X self obs = Inr (em, self\<lparr>rng := rg\<rparr>)"
    and be: "band_entry X obs em bres"
    and loop: "multiband_loop X (self\<lparr>rng := rg, result := Some (?r\<lparr>flags := fl\<rparr>)\<rparr>) rest (acc @ [bres])
                 = Inr (self', reslist)"
    by blast
  let ?s = "self\<lparr>rng := rg, result := Some (?r\<lparr>flags := fl\<rparr>)\<rparr>"
  have res: "result ?s = Some \<lparr>flags = fl, coadd_result = cres, band_results = None\<rparr>"
    by simp
  from multiband_loop_shape [OF loop] res
  have tk: "take (length (acc @ [bres])) reslist = acc @ [bres]" by blast
  have nth: "reslist ! length acc = bres"
    using take_snoc_nth [of "length acc" reslist acc bres] tk by simp
  show ?case
  proof (cases i)
    case 0
    have "self\<lparr>rng := rng self, result := Some ?r\<rparr> = self"
      by (simp add: Cons.prems(2) [symmetric])
    with fit have "get_band_fit X (self\<lparr>rng := rng self, result := Some ?r\<rparr>) obs
                     = Inr (em, self\<lparr>rng := rg\<rparr>)" by simp
    with obs be nth 0 show ?thesis
      unfolding band_result_of_def
      by (intro exI [of _ obs] exI [of _ "rng self"] exI [of _ f] exI [of _ em]
            exI [of _ "self\<lparr>rng := rg\<rparr>"]) simp
  next
    case (Suc j)
    with Cons.prems(3) have j: "j < length rest" by simp
    from Cons.IH [OF loop res j]
    have "band_result_of X ?s cres (rest ! j) (reslist ! (length (acc @ [bres]) + j))" .
    then show ?thesis using Suc by (simp add: band_result_of_def)
  qed
qed

lemma band_result_of_result_update:
  "band_result_of X (self\<lparr>result := v\<rparr>) cres = band_result_of X self cres"
  by (intro ext) (simp add: band_result_of_def)

lemma do_multiband_fit_result:
  assumes "do_multiband_fit X self = Inr self'"
    and "result self = Some \<lparr>flags = f, coadd_result = cres, band_results = None\<rparr>"
  shows "\<exists>rg fl brs.
           self' = self\<lparr>rng := rg,
                        result := Some \<lparr>flags = fl, coadd_result = cres, band_results = Some brs\<rparr>\<rparr> \<and>
           fl = (if list_all (\<lambda>b. \<not> cannot_proceed X b) brs then f else f OR BAND_FAILURE X) \<and>
           list_all2 (band_result_of X self cres) (mbobs self) brs"
proof -
  let ?r = "\<lparr>flags = f, coadd_result = cres, band_results = None\<rparr>"
  from assms obtain s1 reslist where
    loop: "multiband_loop X self (mbobs self) [] = Inr (s1, reslist)"
    by (auto simp: do_multiband_fit_def split: sum.splits option.splits)
  from multiband_loop_shape [OF loop assms(2)] obtain rg fl where
    s1: "s1 = self\<lparr>rng := rg, result := Some (?r\<lparr>flags := fl\<rparr>)\<rparr>"
    and len: "length reslist = length (mbobs self)"
    by auto
  have s': "self' = self\<lparr>rng := rg,
                result := Some \<lparr>flags = fl, coadd_result = cres, band_results = Some reslist\<rparr>\<rparr>"
    using assms loop s1 by (simp add: do_multiband_fit_def)
  have fl: "fl = (if list_all (\<lambda>b. \<not> cannot_proceed X b) reslist then f else f OR BAND_FAILURE X)"
    using multiband_loop_flags [OF loop assms(2)] s1 by simp
  have ord: "list_all2 (band_result_of X self cres) (mbobs self) reslist"
    unfolding list_all2_conv_all_nth
  proof (intro conjI allI impI)
    show "length (mbobs self) = length reslist" using len by simp
  next
    fix i assume "i < length (mbobs self)"
    from multiband_loop_order [OF loop assms(2) this]
    show "band_result_of X self cres (mbobs self ! i) (reslist ! i)" by simp
  qed
  show ?thesis using s' fl ord
    by (intro exI [of _ rg] exI [of _ fl] exI [of _ reslist] conjI)
qed

text \<open>The two ways a run of \<^verbatim>\<open>shred\<close> completes.\<close>

lemma shred_cases:
  assumes "shred X self gmix_guess = Inr self'"
  obtains em_coadd where "do_coadd_fit X self gmix_guess = Inr em_coadd"
    and "cannot_proceed X (get_result em_coadd)"
    and "self' = self\<lparr>result := Some \<lparr>flags = COADD_FAILURE X, coadd_result = get_result em_coadd,
                                          band_results = None\<rparr>\<rparr>"
  | em_coadd rg fl brs where "do_coadd_fit X self gmix_guess = Inr em_coadd"
    and "\<not> cannot_proceed X (get_result em_coadd)"
    and "do_multiband_fit X
           (self\<lparr>result := Some \<lparr>flags = 0,
               coadd_result = (get_result em_coadd)\<lparr>res_gmix := Some (get_gmix em_coadd)\<rparr>,
               band_results = None\<rparr>\<rparr>) = Inr self'"
    and "self' = self\<lparr>rng := rg,
                 result := Some \<lparr>flags = fl,
                   coadd_result = (get_result em_coadd)\<lparr>res_gmix := Some (get_gmix em_coadd)\<rparr>,
                   band_results = Some brs\<rparr>\<rparr>"
    and "fl = (if list_all (\<lambda>b. \<not> cannot_proceed X b) brs then 0 else BAND_FAILURE X)"
    and "list_all2 (band_result_of X self
            ((get_result em_coadd)\<lparr>res_gmix := Some (get_gmix em_coadd)\<rparr>)) (mbobs self) brs"
proof -
  from assms obtain em_coadd where em: "do_coadd_fit X self gmix_guess = Inr em_coadd"
    by (auto simp: shred_def split: sum.splits)
  show thesis
  proof (cases "cannot_proceed X (get_result em_coadd)")
    case True
    with assms em have "self' = self\<lparr>result := Some \<lparr>flags = COADD_FAILURE X,
        coadd_result = get_result em_coadd, band_results = None\<rparr>\<rparr>"
      by (simp add: shred_def cannot_proceed_def Let_def)
    with em True show thesis by (rule that(1))
  next
    case False
    let ?c = "(get_result em_coadd)\<lparr>res_gmix := Some (get_gmix em_coadd)\<rparr>"
    let ?s = "self\<lparr>result := Some \<lparr>flags = 0, coadd_result = ?c, band_results = None\<rparr>\<rparr>"
    from assms em False have run: "do_multiband_fit X ?s = Inr self'"
      by (auto simp: shred_def cannot_proceed_def Let_def)
    have res: "result ?s = Some \<lparr>flags = 0, coadd_result = ?c, band_results = None\<rparr>" by simp
    from do_multiband_fit_result [OF run res] obtain rg fl brs where
      a: "self' = ?s\<lparr>rng := rg, result := Some \<lparr>flags = fl, coadd_result = ?c, band_results = Some brs\<rparr>\<rparr>"
      and b: "fl = (if list_all (\<lambda>b. \<not> cannot_proceed X b) brs then 0 else 0 OR BAND_FAILURE X)"
      and d: "list_all2 (band_result_of X ?s ?c) (mbobs ?s) brs"
      by blast
    have a': "self' = self\<lparr>rng := rg, result := Some \<lparr>flags = fl, coadd_result = ?c, band_results = Some brs\<rparr>\<rparr>"
      using a by simp
    have b': "fl = (if list_all (\<lambda>b. \<not> cannot_proceed X b) brs then 0 else BAND_FAILURE X)"
      using b by simp
    have d': "list_all2 (band_result_of X self ?c) (mbobs self) brs"
      using d by (simp add: band_result_of_result_update)
    from em False run a' b' d' show thesis by (rule that(2))
  qed
qed

lemmas shred_eval =
  shred_def do_coadd_fit_def do_multiband_fit_def get_band_fit_def get_band_guess_def
  set_band_flux_and_gmix_def make_image_def Observation_def psf_def first_obs_def
  get_flux_unfold arr_eval demo_defs Let_def upt_rec

section \<open>The coadd gate\<close>

text \<open>
  Claim C1, as amended. In a completed run of \<^verbatim>\<open>shred\<close>, with \<open>COADD_FAILURE\<close> a
  nonzero flag that shares no bit with \<open>BAND_FAILURE\<close>: the aggregate result has the
  \<open>COADD_FAILURE\<close> flag, and has no band results, exactly when the coadd fit's flags are
  nonzero and the bit \<open>EM_MAXITER\<close> is not set in them. In that case nothing else of the
  shredder changes: no band is fitted. Otherwise (the flags are zero, or they include the
  max-iterations bit, alone or with other bits) the fitted coadd mixture is stored in the
  coadd result and the run is the per-band stage's.
\<close>

theorem shred_coadd_gate:
  assumes "shred X self gmix_guess = Inr self'"
    and "do_coadd_fit X self gmix_guess = Inr em_coadd"
    and "COADD_FAILURE X \<noteq> 0"
    and "COADD_FAILURE X AND BAND_FAILURE X = 0"
  shows "\<exists>res. result self' = Some res \<and>
           ((flags res AND COADD_FAILURE X \<noteq> 0) = cannot_proceed X (get_result em_coadd)) \<and>
           ((band_results res = None) = cannot_proceed X (get_result em_coadd)) \<and>
           (if cannot_proceed X (get_result em_coadd)
            then self' = self\<lparr>result := Some \<lparr>flags = COADD_FAILURE X,
                                   coadd_result = get_result em_coadd, band_results = None\<rparr>\<rparr>
            else coadd_result res = (get_result em_coadd)\<lparr>res_gmix := Some (get_gmix em_coadd)\<rparr> \<and>
                 do_multiband_fit X
                   (self\<lparr>result := Some \<lparr>flags = 0,
                       coadd_result = (get_result em_coadd)\<lparr>res_gmix := Some (get_gmix em_coadd)\<rparr>,
                       band_results = None\<rparr>\<rparr>) = Inr self')"
  using assms(1)
proof (cases rule: shred_cases)
  case (1 em)
  with assms(2) have "em = em_coadd" by simp
  with 1 assms(3) show ?thesis by simp
next
  case (2 em rg fl brs)
  with assms(2) have em: "em = em_coadd" by simp
  have "fl AND COADD_FAILURE X = 0"
    using 2(5) assms(4) by (auto simp: and.commute)
  with 2 em show ?thesis by simp
qed

text \<open>A coadd fit that ends with the flags \<open>1\<close>: a failure other than the iteration budget.\<close>

theorem shred_coadd_gate_witness:
  "\<exists>self'. shred (demo_collab 1 0) demo_shredder [] = Inr self' \<and>
           do_coadd_fit (demo_collab 1 0) demo_shredder [] = Inr (demo_fit 1) \<and>
           COADD_FAILURE (demo_collab 1 0) \<noteq> 0 \<and>
           COADD_FAILURE (demo_collab 1 0) AND BAND_FAILURE (demo_collab 1 0) = 0 \<and>
           cannot_proceed (demo_collab 1 0) (get_result (demo_fit 1)) \<and>
           result self' = Some \<lparr>flags = 4, coadd_result = get_result (demo_fit 1),
                                band_results = None\<rparr>"
proof -
  have run: "shred (demo_collab 1 0) demo_shredder []
      = Inr (demo_shredder\<lparr>result := Some \<lparr>flags = 4, coadd_result = get_result (demo_fit 1),
                                band_results = None\<rparr>\<rparr>)"
    by (simp add: shred_eval)
  have fit: "do_coadd_fit (demo_collab 1 0) demo_shredder [] = Inr (demo_fit 1)"
    by (simp add: shred_eval)
  have cf: "COADD_FAILURE (demo_collab 1 0) \<noteq> 0"
    and cb: "COADD_FAILURE (demo_collab 1 0) AND BAND_FAILURE (demo_collab 1 0) = 0"
    by (simp_all add: demo_defs)
  from shred_coadd_gate [OF run fit cf cb] run fit show ?thesis
    by (simp add: cannot_proceed_def demo_defs)
qed

text \<open>
  Claim C1 as stated fails when the coadd flags hold the max-iterations bit together
  with another bit. With \<open>EM_MAXITER = 2\<close> and coadd flags \<open>3\<close> the flags are nonzero and
  are not the max-iterations flag alone, yet the run goes on: the aggregate flags are
  \<open>0\<close>, the mixture is stored and the band is fitted.
\<close>

theorem shred_coadd_gate_counterexample:
  "res_flags (get_result (demo_fit 3)) \<noteq> 0 \<and>
   res_flags (get_result (demo_fit 3)) \<noteq> EM_MAXITER (demo_collab 3 0) \<and>
   do_coadd_fit (demo_collab 3 0) demo_shredder [] = Inr (demo_fit 3) \<and>
   shred (demo_collab 3 0) demo_shredder [] =
     Inr (demo_shredder\<lparr>result := Some
            \<lparr>flags = 0,
             coadd_result = \<lparr>res_flags = 3, res_sky = Fin 0, res_gmix = Some [],
                             total_flux = None, total_flux_err = None\<rparr>,
             band_results = Some [\<lparr>res_flags = 0, res_sky = Fin 0, res_gmix = Some [],
                                   total_flux = Some (Fin 3), total_flux_err = Some (Fin 3)\<rparr>]\<rparr>\<rparr>)"
  by (simp add: shred_eval)

section \<open>The band results\<close>

text \<open>
  Claim C6. In a completed run of \<^verbatim>\<open>shred\<close>, with \<open>COADD_FAILURE\<close> a nonzero flag that
  shares no bit with \<open>BAND_FAILURE\<close>: when the \<open>COADD_FAILURE\<close> flag is not set, the
  result has band results, as many as the input has bands, and the entry at each
  position is the entry the per-band stage makes for the band at that position (the
  fitter's own result when the band's fit cannot proceed, the calibrated one otherwise);
  when the flag is set, the key \<^verbatim>\<open>band_results\<close> is absent.
\<close>

theorem shred_band_results:
  assumes "shred X self gmix_guess = Inr self'"
    and "COADD_FAILURE X \<noteq> 0"
    and "COADD_FAILURE X AND BAND_FAILURE X = 0"
  shows "\<exists>res. result self' = Some res \<and>
           (if flags res AND COADD_FAILURE X = 0
            then \<exists>brs. band_results res = Some brs \<and>
                   length brs = length (mbobs self) \<and>
                   list_all2 (band_result_of X self (coadd_result res)) (mbobs self) brs
            else band_results res = None)"
  using assms(1)
proof (cases rule: shred_cases)
  case (1 em)
  with assms(2) show ?thesis by simp
next
  case (2 em rg fl brs)
  have "fl AND COADD_FAILURE X = 0"
    using 2(5) assms(3) by (auto simp: and.commute)
  moreover have "length brs = length (mbobs self)"
    using 2(6) by (simp add: list_all2_lengthD)
  ultimately show ?thesis using 2(4,6) by simp
qed

text \<open>One band whose fit fails with the flags \<open>1\<close>: its own result is the entry.\<close>

theorem shred_band_results_witness:
  "\<exists>self' res brs.
     shred (demo_collab 0 1) demo_shredder [] = Inr self' \<and>
     COADD_FAILURE (demo_collab 0 1) \<noteq> 0 \<and>
     COADD_FAILURE (demo_collab 0 1) AND BAND_FAILURE (demo_collab 0 1) = 0 \<and>
     result self' = Some res \<and> flags res AND COADD_FAILURE (demo_collab 0 1) = 0 \<and>
     band_results res = Some brs \<and> length brs = length (mbobs demo_shredder) \<and>
     list_all2 (band_result_of (demo_collab 0 1) demo_shredder (coadd_result res))
       (mbobs demo_shredder) brs \<and>
     brs = [get_result (demo_fit 1)]"
proof -
  have run: "shred (demo_collab 0 1) demo_shredder []
      = Inr (demo_shredder\<lparr>result := Some
               \<lparr>flags = 8, coadd_result = (get_result (demo_fit 0))\<lparr>res_gmix := Some []\<rparr>,
                band_results = Some [get_result (demo_fit 1)]\<rparr>\<rparr>)"
    by (simp add: shred_eval)
  have cf: "COADD_FAILURE (demo_collab 0 1) \<noteq> 0"
    and cb: "COADD_FAILURE (demo_collab 0 1) AND BAND_FAILURE (demo_collab 0 1) = 0"
    by (simp_all add: demo_defs)
  have fl: "(8 :: int) AND COADD_FAILURE (demo_collab 0 1) = 0" by (simp add: demo_defs)
  from shred_band_results [OF run cf cb] run cf cb fl show ?thesis
    by simp
qed

section \<open>The aggregate flags\<close>

text \<open>
  Claim C10, as amended. In a completed run of \<^verbatim>\<open>shred\<close> the aggregate flags are \<open>0\<close>,
  \<open>COADD_FAILURE\<close> or \<open>BAND_FAILURE\<close>, and the coadd result keeps the flags of the coadd
  fit: they are never merged into the aggregate flags. When the coadd fit stopped only
  on the iteration budget (its flags are \<open>EM_MAXITER\<close>, a nonzero flag), the run has band
  results, and the aggregate flags are \<open>0\<close> if every band's result can proceed and
  \<open>BAND_FAILURE\<close> if one cannot, whatever the nonzero flags of the coadd result.
\<close>

theorem shred_flags:
  assumes "shred X self gmix_guess = Inr self'"
    and "do_coadd_fit X self gmix_guess = Inr em_coadd"
  shows "\<exists>res. result self' = Some res \<and>
           (flags res = 0 \<or> flags res = COADD_FAILURE X \<or> flags res = BAND_FAILURE X) \<and>
           res_flags (coadd_result res) = res_flags (get_result em_coadd) \<and>
           (res_flags (get_result em_coadd) = EM_MAXITER X \<and> EM_MAXITER X \<noteq> 0 \<longrightarrow>
              (\<exists>brs. band_results res = Some brs \<and>
                 flags res = (if list_all (\<lambda>b. \<not> cannot_proceed X b) brs then 0
                              else BAND_FAILURE X)))"
  using assms(1)
proof (cases rule: shred_cases)
  case (1 em)
  with assms(2) have "em = em_coadd" by simp
  with 1 show ?thesis by (auto simp: cannot_proceed_def)
next
  case (2 em rg fl brs)
  with assms(2) have "em = em_coadd" by simp
  with 2 show ?thesis by simp
qed

text \<open>A coadd fit that stops on the iteration budget and a band that passes.\<close>

theorem shred_flags_witness:
  "\<exists>self' res.
     shred (demo_collab 2 0) demo_shredder [] = Inr self' \<and>
     do_coadd_fit (demo_collab 2 0) demo_shredder [] = Inr (demo_fit 2) \<and>
     res_flags (get_result (demo_fit 2)) = EM_MAXITER (demo_collab 2 0) \<and>
     result self' = Some res \<and> flags res = 0 \<and> res_flags (coadd_result res) = 2"
proof -
  have run: "shred (demo_collab 2 0) demo_shredder []
      = Inr (demo_shredder\<lparr>result := Some
               \<lparr>flags = 0, coadd_result = (get_result (demo_fit 2))\<lparr>res_gmix := Some []\<rparr>,
                band_results = Some [\<lparr>res_flags = 0, res_sky = Fin 0, res_gmix = Some [],
                                      total_flux = Some (Fin 3), total_flux_err = Some (Fin 3)\<rparr>]\<rparr>\<rparr>)"
    by (simp add: shred_eval)
  have fit: "do_coadd_fit (demo_collab 2 0) demo_shredder [] = Inr (demo_fit 2)"
    by (simp add: shred_eval)
  from shred_flags [OF run fit] run fit show ?thesis
    by (simp add: demo_defs)
qed

text \<open>
  Claim C10 as stated fails when a band fit fails after such a coadd fit: with coadd
  flags \<open>2\<close> (the iteration budget only) and band flags \<open>1\<close> the aggregate flags are
  \<open>BAND_FAILURE\<close>, not \<open>0\<close>.
\<close>

theorem shred_flags_counterexample:
  "res_flags (get_result (demo_fit 2)) = EM_MAXITER (demo_collab 2 1) \<and>
   do_coadd_fit (demo_collab 2 1) demo_shredder [] = Inr (demo_fit 2) \<and>
   shred (demo_collab 2 1) demo_shredder [] =
     Inr (demo_shredder\<lparr>result := Some
            \<lparr>flags = 8,
             coadd_result = \<lparr>res_flags = 2, res_sky = Fin 0, res_gmix = Some [],
                             total_flux = None, total_flux_err = None\<rparr>,
             band_results = Some [\<lparr>res_flags = 1, res_sky = Fin 0, res_gmix = None,
                                   total_flux = None, total_flux_err = None\<rparr>]\<rparr>\<rparr>) \<and>
   BAND_FAILURE (demo_collab 2 1) = 8"
  by (simp add: shred_eval)

section \<open>Arithmetic of images with finite pixels\<close>

lemma finite_float_iff: "finite_float x = (\<exists>r. x = Fin r)"
  by (cases x) (simp_all add: finite_float_def)

lemma length_arr_add [simp]: "length (arr_add a b) = min (length a) (length b)"
  by (simp add: arr_add_def)

lemma length_arr_sub [simp]: "length (arr_sub a b) = min (length a) (length b)"
  by (simp add: arr_sub_def)

lemma finite_image_Nil [simp]: "finite_image []"
  by (simp add: finite_image_def)

lemma finite_image_Cons [simp]: "finite_image (x # xs) = (finite_float x \<and> finite_image xs)"
  by (simp add: finite_image_def)

lemma arr_add_Cons [simp]: "arr_add (x # xs) (y # ys) = fadd x y # arr_add xs ys"
  by (simp add: arr_add_def)

lemma arr_sub_Cons [simp]: "arr_sub (x # xs) (y # ys) = fsub x y # arr_sub xs ys"
  by (simp add: arr_sub_def)

lemma arr_add_Nil [simp]: "arr_add [] [] = []"
  by (simp add: arr_add_def)

lemma arr_sub_Nil [simp]: "arr_sub [] [] = []"
  by (simp add: arr_sub_def)

lemma finite_arr_add:
  assumes "length b = length a" and "finite_image a" and "finite_image b"
  shows "finite_image (arr_add a b)"
  using assms
  by (induction b a rule: list_induct2) (auto simp: finite_float_iff)

lemma finite_arr_sub:
  assumes "length b = length a" and "finite_image a" and "finite_image b"
  shows "finite_image (arr_sub a b)"
  using assms
  by (induction b a rule: list_induct2) (auto simp: finite_float_iff fsub_def)

lemma arr_add_sub_cancel:
  assumes "length m = length a" and "finite_image a" and "finite_image m"
  shows "arr_sub (arr_add a m) m = a"
  using assms
  by (induction m a rule: list_induct2) (auto simp: finite_float_iff fsub_def)

lemma arr_sub_add_cancel:
  assumes "length m = length a" and "finite_image a" and "finite_image m"
  shows "arr_add (arr_sub a m) m = a"
  using assms
  by (induction m a rule: list_induct2) (auto simp: finite_float_iff fsub_def)

lemma arr_sub_sub:
  assumes "length a = length m" and "length m = length x"
    and "finite_image a" and "finite_image m" and "finite_image x"
  shows "arr_sub (arr_sub a m) x = arr_sub a (arr_add m x)"
  using assms
  by (induction a m x rule: list_induct3) (auto simp: finite_float_iff fsub_def)

lemma arr_sub_add_swap:
  assumes "length a = length t" and "length t = length m"
    and "finite_image a" and "finite_image t" and "finite_image m"
  shows "arr_add (arr_sub a t) m = arr_sub (arr_add a m) t"
  using assms
  by (induction a t m rule: list_induct3) (auto simp: finite_float_iff fsub_def)

lemma arr_sub_add_both:
  assumes "length a = length s" and "length s = length m"
    and "finite_image a" and "finite_image s" and "finite_image m"
  shows "arr_sub (arr_add a m) (arr_add s m) = arr_sub a s"
  using assms
  by (induction a s m rule: list_induct3) (auto simp: finite_float_iff fsub_def)

lemma arr_sub_zeros:
  assumes "finite_image a"
  shows "arr_sub a (replicate (length a) (Fin 0)) = a"
  using assms by (induction a) (auto simp: finite_float_iff fsub_def)

lemma finite_zeros: "finite_image (replicate n (Fin 0))"
  by (induction n) (simp_all add: finite_float_iff)

section \<open>Adding and subtracting one object's model images\<close>

lemma py_index_nat:
  assumes "0 \<le> i" and "nat i < length xs"
  shows "py_index xs i = Inr (xs ! nat i)"
  using assms by (simp add: py_index_def Let_def)

lemma add_bands:
  assumes "list_all2 (band_ok index) m ims" and "0 \<le> index"
  shows "add_or_subtract_bands index ''add'' m ims = (with_source m ims index, None)"
  using assms(1)
proof (induction rule: list_all2_induct)
  case Nil
  show ?case by (simp add: with_source_def)
next
  case (Cons obslist m bmi ims)
  from Cons(1) obtain obs rest where ol: "obslist = obs # rest"
    and i: "nat index < length bmi"
    and len: "length (bmi ! nat index) = length (image obs)"
    by (auto simp: band_ok_def split: list.splits)
  have ix: "py_index bmi index = Inr (bmi ! nat index)"
    using py_index_nat [OF assms(2) i] .
  show ?case
    using Cons(3) ol ix len
    by (simp add: first_obs_def iadd_def with_source_def add_to_first_def)
qed

lemma sub_bands:
  assumes "list_all2 (band_ok index) m ims" and "0 \<le> index"
  shows "add_or_subtract_bands index ''subtract'' (with_source m ims index) ims = (m, None)"
  using assms(1)
proof (induction rule: list_all2_induct)
  case Nil
  show ?case by (simp add: with_source_def)
next
  case (Cons obslist m bmi ims)
  from Cons(1) obtain obs rest where ol: "obslist = obs # rest"
    and i: "nat index < length bmi"
    and len: "length (bmi ! nat index) = length (image obs)"
    and fa: "finite_image (image obs)" and fm: "finite_image (bmi ! nat index)"
    by (auto simp: band_ok_def split: list.splits)
  have ix: "py_index bmi index = Inr (bmi ! nat index)"
    using py_index_nat [OF assms(2) i] .
  have restore: "arr_sub (arr_add (image obs) (bmi ! nat index)) (bmi ! nat index) = image obs"
    using arr_add_sub_cancel [OF len fa fm] .
  have IH: "add_or_subtract_bands index ''subtract'' (map2 (add_to_first (nat index)) m ims) ims
              = (m, None)"
    using Cons(3) by (simp add: with_source_def)
  show ?case
    using IH ol ix len restore
    by (simp add: first_obs_def isub_def with_source_def add_to_first_def)
qed

section \<open>Loops that build lists\<close>

lemma map_err_list_all2:
  assumes "map_err f xs = Inr ys"
  shows "list_all2 (\<lambda>x y. f x = Inr y) xs ys"
  using assms
proof (induction xs arbitrary: ys)
  case Nil
  then show ?case by simp
next
  case (Cons x xs)
  then show ?case by (auto split: sum.splits)
qed

lemma list_all2_map_eq:
  assumes "list_all2 (\<lambda>x y. y = g x) xs ys"
  shows "ys = map g xs"
  using assms by (induction rule: list_all2_induct) simp_all

lemma upto_nat: "[0..int k - 1] = map int [0..<k]"
proof (induction k)
  case 0
  show ?case by simp
next
  case (Suc k)
  have "[0..int (Suc k) - 1] = [0..int k]" by simp
  also have "\<dots> = [0..int k - 1] @ [int k]" by (simp add: upto_rec2)
  finally show ?case using Suc by simp
qed

lemma range_nobj: "[0..n - 1] = map int [0..<nat n]"
proof (cases "0 \<le> n")
  case True
  then show ?thesis using upto_nat [of "nat n"] by simp
next
  case False
  then show ?thesis by simp
qed

section \<open>Subtracting and restoring all model images of a band\<close>

lemma subtract_all_foldl:
  assumes "length a = n" and "\<forall>m \<in> set ms. length m = n"
  shows "subtract_all a ms = Inr (foldl arr_sub a ms)"
  using assms
proof (induction ms arbitrary: a)
  case Nil
  show ?case by simp
next
  case (Cons m ms)
  have "length (arr_sub a m) = n" using Cons.prems by simp
  moreover have "\<forall>x \<in> set ms. length x = n" using Cons.prems by simp
  ultimately have "subtract_all (arr_sub a m) ms = Inr (foldl arr_sub (arr_sub a m) ms)"
    by (rule Cons.IH)
  then show ?case using Cons.prems by (simp add: isub_def)
qed

lemma foldl_arr_add_closed:
  assumes "finite_image s" and "length s = n"
    and "\<forall>m \<in> set ms. length m = n \<and> finite_image m"
  shows "finite_image (foldl arr_add s ms) \<and> length (foldl arr_add s ms) = n"
  using assms
proof (induction ms arbitrary: s)
  case Nil
  then show ?case by simp
next
  case (Cons m ms)
  have lm: "length m = n" and fm: "finite_image m" using Cons.prems(3) by simp_all
  have f: "finite_image (arr_add s m)"
    by (rule finite_arr_add) (simp_all add: lm fm Cons.prems(1,2))
  have l: "length (arr_add s m) = n" by (simp add: lm Cons.prems(2))
  have r: "\<forall>x \<in> set ms. length x = n \<and> finite_image x" using Cons.prems(3) by simp
  from Cons.IH [OF f l r] show ?case by simp
qed

lemma foldl_arr_sub_sum:
  assumes "finite_image a" and "length a = n" and "finite_image s" and "length s = n"
    and "\<forall>m \<in> set ms. length m = n \<and> finite_image m"
  shows "foldl arr_sub (arr_sub a s) ms = arr_sub a (foldl arr_add s ms)"
  using assms(3-)
proof (induction ms arbitrary: s)
  case Nil
  show ?case by simp
next
  case (Cons m ms)
  have lm: "length m = n" and fm: "finite_image m" using Cons.prems(3) by simp_all
  have step: "arr_sub (arr_sub a s) m = arr_sub a (arr_add s m)"
    by (rule arr_sub_sub) (simp_all add: assms(1,2) Cons.prems(1,2) lm fm)
  have f: "finite_image (arr_add s m)"
    by (rule finite_arr_add) (simp_all add: lm fm Cons.prems(1,2))
  have l: "length (arr_add s m) = n" by (simp add: lm Cons.prems(2))
  have r: "\<forall>x \<in> set ms. length x = n \<and> finite_image x" using Cons.prems(3) by simp
  have "foldl arr_sub (arr_sub a s) (m # ms) = foldl arr_sub (arr_sub (arr_sub a s) m) ms"
    by simp
  also have "\<dots> = foldl arr_sub (arr_sub a (arr_add s m)) ms" by (simp only: step)
  also have "\<dots> = arr_sub a (foldl arr_add (arr_add s m) ms)" by (rule Cons.IH [OF f l r])
  also have "\<dots> = arr_sub a (foldl arr_add s (m # ms))" by simp
  finally show ?case .
qed

lemma foldl_arr_add_restore:
  assumes "finite_image a" and "length a = n" and "finite_image s" and "length s = n"
    and "\<forall>m \<in> set ms. length m = n \<and> finite_image m"
  shows "foldl arr_add (arr_sub a (foldl arr_add s ms)) ms = arr_sub a s"
  using assms
proof (induction ms arbitrary: a s)
  case Nil
  show ?case by simp
next
  case (Cons m ms)
  let ?T = "foldl arr_add (arr_add s m) ms"
  have lm: "length m = n" and fm: "finite_image m" using Cons.prems(5) by simp_all
  have fs: "finite_image (arr_add s m)"
    by (rule finite_arr_add) (simp_all add: lm fm Cons.prems(3,4))
  have fa: "finite_image (arr_add a m)"
    by (rule finite_arr_add) (simp_all add: lm fm Cons.prems(1,2))
  have ls: "length (arr_add s m) = n" by (simp add: lm Cons.prems(4))
  have la: "length (arr_add a m) = n" by (simp add: lm Cons.prems(2))
  have r: "\<forall>x \<in> set ms. length x = n \<and> finite_image x" using Cons.prems(5) by simp
  from foldl_arr_add_closed [OF fs ls r]
  have fT: "finite_image ?T" and lT: "length ?T = n" by simp_all
  have swap: "arr_add (arr_sub a ?T) m = arr_sub (arr_add a m) ?T"
    by (rule arr_sub_add_swap) (simp_all add: Cons.prems(1,2) fT lT lm fm)
  have both: "arr_sub (arr_add a m) (arr_add s m) = arr_sub a s"
    by (rule arr_sub_add_both) (simp_all add: Cons.prems(1-4) lm fm)
  have "foldl arr_add (arr_sub a (foldl arr_add s (m # ms))) (m # ms)
          = foldl arr_add (arr_add (arr_sub a ?T) m) ms" by simp
  also have "\<dots> = foldl arr_add (arr_sub (arr_add a m) ?T) ms" by (simp only: swap)
  also have "\<dots> = arr_sub (arr_add a m) (arr_add s m)"
    by (rule Cons.IH [OF fa la fs ls r])
  also have "\<dots> = arr_sub a s" by (rule both)
  finally show ?case .
qed

lemma subtract_all_sum:
  assumes "finite_image a" and "\<forall>m \<in> set ms. length m = length a \<and> finite_image m"
  shows "subtract_all a ms = Inr (arr_sub a (sum_images (length a) ms))"
    and "foldl arr_add (arr_sub a (sum_images (length a) ms)) ms = a"
proof -
  let ?z = "replicate (length a) (Fin 0)"
  have z: "finite_image ?z" by (rule finite_zeros)
  have lz: "length ?z = length a" by simp
  have az: "arr_sub a ?z = a" using arr_sub_zeros [OF assms(1)] .
  have "subtract_all a ms = Inr (foldl arr_sub a ms)"
    by (rule subtract_all_foldl [OF refl]) (simp add: assms(2))
  also have "foldl arr_sub a ms = foldl arr_sub (arr_sub a ?z) ms" by (simp only: az)
  also have "\<dots> = arr_sub a (foldl arr_add ?z ms)"
    by (rule foldl_arr_sub_sum [OF assms(1) refl z lz assms(2)])
  finally show "subtract_all a ms = Inr (arr_sub a (sum_images (length a) ms))"
    by (simp add: sum_images_def)
  have "foldl arr_add (arr_sub a (foldl arr_add ?z ms)) ms = arr_sub a ?z"
    by (rule foldl_arr_add_restore [OF assms(1) refl z lz assms(2)])
  then show "foldl arr_add (arr_sub a (sum_images (length a) ms)) ms = a"
    by (simp only: az sum_images_def)
qed

section \<open>The constructor of the subtractor\<close>

lemma py_index_int:
  assumes "py_index xs (int b) = Inr y"
  shows "y = xs ! b"
  using assms by (simp add: py_index_def Let_def split: if_splits)

lemma map_err_nth:
  assumes "map_err f xs = Inr ys"
  shows "length ys = length xs" and "\<And>i. i < length xs \<Longrightarrow> f (xs ! i) = Inr (ys ! i)"
  using map_err_list_all2 [OF assms] by (auto simp: list_all2_conv_all_nth)

lemma set_ngauss_per_Inr:
  assumes "set_ngauss_per self = Inr self1"
  shows "sub_shredder self1 = sub_shredder self" and "nobj self1 = nobj self"
    and "ngauss_per_convolved self1
           = int (length (band_gmix_convolved (sub_shredder self) ! 0)) div nobj self"
  using assms
  by (auto simp: set_ngauss_per_def Let_def py_index_def split: sum.splits if_splits)

lemma build_band_models_Inr:
  assumes "build_band_models X self (int b, ol) = Inr bmi"
    and "sub_shredder self = sh" and "nobj self = n"
    and "ngauss_per_convolved self = int (length (band_gmix_convolved sh ! 0)) div n"
  shows "\<exists>obs rest. ol = obs # rest \<and> bmi = map (object_model X sh n b obs) [0..<nat n]"
proof -
  from assms(1) obtain obs rest where ol: "ol = obs # rest"
    by (cases ol) (simp_all add: build_band_models_def first_obs_def)
  let ?f = "\<lambda>iobj. case get_object_gmix_data_convolved self iobj (int b) of
                     Inl e \<Rightarrow> Inl e
                   | Inr gm \<Rightarrow> Inr (map (render X gm (obs_jacobian obs) (length (image obs)))
                                     [0..<length (image obs)])"
  have "map_err ?f (map int [0..<nat n]) = Inr bmi"
    using assms(1,3) ol by (simp add: build_band_models_def first_obs_def range_nobj)
  then have "list_all2 (\<lambda>x y. ?f x = Inr y) (map int [0..<nat n]) bmi"
    by (rule map_err_list_all2)
  then have "list_all2 (\<lambda>i y. ?f (int i) = Inr y) [0..<nat n] bmi"
    by (simp add: list_all2_map1)
  moreover have "y = object_model X sh n b obs i" if "?f (int i) = Inr y" for i y
    using that assms(2,4)
    by (auto simp: get_object_gmix_data_convolved_def get_object_index_range_convolved_def
          object_model_def Let_def dest!: py_index_int split: sum.splits)
  ultimately have "list_all2 (\<lambda>i y. y = object_model X sh n b obs i) [0..<nat n] bmi"
    by (rule list_all2_mono)
  then have "bmi = map (object_model X sh n b obs) [0..<nat n]"
    by (rule list_all2_map_eq)
  with ol show ?thesis by blast
qed

lemma ModelSubtractor_Inr:
  assumes "ModelSubtractor X sh n = Inr self"
  obtains self1 where "sub_shredder self1 = sh" and "nobj self1 = n"
    and "ngauss_per_convolved self1 = int (length (band_gmix_convolved sh ! 0)) div n"
    and "map_err (build_band_models X self1)
           (zip (map int [0..<length (orig_mbobs sh)]) (orig_mbobs sh)) = Inr (model_images self)"
    and "map_err build_diff_obslist (zip (orig_mbobs sh) (model_images self))
           = Inr (sub_mbobs self)"
    and "nobj self = n"
proof -
  let ?self0 = "\<lparr>sub_shredder = sh, nobj = n, ngauss = 0, ngauss_per = 0,
                 ngauss_convolved = 0, ngauss_per_convolved = 0, model_images = [],
                 sub_mbobs = []\<rparr>"
  from assms obtain self1 self2 where s1: "set_ngauss_per ?self0 = Inr self1"
    and s2: "build_models X self1 = Inr self2"
    and s3: "build_subtracted_mbobs self2 = Inr self"
    by (auto simp: ModelSubtractor_def split: sum.splits)
  from set_ngauss_per_Inr [OF s1]
  have a: "sub_shredder self1 = sh" and b: "nobj self1 = n"
    and c: "ngauss_per_convolved self1 = int (length (band_gmix_convolved sh ! 0)) div n"
    by simp_all
  from s2 a obtain ims where
    m: "map_err (build_band_models X self1)
          (zip (map int [0..<length (orig_mbobs sh)]) (orig_mbobs sh)) = Inr ims"
    and self2: "self2 = self1\<lparr>model_images := ims\<rparr>"
    by (auto simp: build_models_def Let_def split: sum.splits)
  from s3 self2 a obtain sub where
    d: "map_err build_diff_obslist (zip (orig_mbobs sh) ims) = Inr sub"
    and self3: "self = self2\<lparr>sub_mbobs := sub\<rparr>"
    by (auto simp: build_subtracted_mbobs_def split: sum.splits)
  have "model_images self = ims" and "sub_mbobs self = sub" and "nobj self = n"
    using self2 self3 b by simp_all
  with a b c m d that show thesis by simp
qed

lemma length_object_model [simp]:
  "length (object_model X sh n b obs i) = length (image obs)"
  by (simp add: object_model_def Let_def)

lemma finite_object_model:
  assumes "\<forall>gm jac k i. finite_float (render X gm jac k i)"
  shows "finite_image (object_model X sh n b obs i)"
  using assms by (simp add: object_model_def Let_def finite_image_def list_all_iff)

lemma ModelSubtractor_lengths:
  assumes "ModelSubtractor X sh n = Inr self"
  shows "length (model_images self) = length (orig_mbobs sh)"
    and "length (sub_mbobs self) = length (orig_mbobs sh)"
proof -
  from assms obtain self1 where
    m: "map_err (build_band_models X self1)
          (zip (map int [0..<length (orig_mbobs sh)]) (orig_mbobs sh)) = Inr (model_images self)"
    and d: "map_err build_diff_obslist (zip (orig_mbobs sh) (model_images self))
              = Inr (sub_mbobs self)"
    by (rule ModelSubtractor_Inr)
  from map_err_nth(1) [OF m] show l: "length (model_images self) = length (orig_mbobs sh)"
    by simp
  from map_err_nth(1) [OF d] l show "length (sub_mbobs self) = length (orig_mbobs sh)"
    by simp
qed

lemma ModelSubtractor_band:
  assumes "ModelSubtractor X sh n = Inr self"
    and "list_all finite_band (orig_mbobs sh)"
    and "\<forall>gm jac k i. finite_float (render X gm jac k i)"
    and "b < length (orig_mbobs sh)"
  shows "subtracted_band X sh n b (orig_mbobs sh ! b) (model_images self ! b) (sub_mbobs self ! b)"
proof -
  let ?mb = "orig_mbobs sh"
  from assms(1) obtain self1 where a: "sub_shredder self1 = sh" and n: "nobj self1 = n"
    and c: "ngauss_per_convolved self1 = int (length (band_gmix_convolved sh ! 0)) div n"
    and m: "map_err (build_band_models X self1)
          (zip (map int [0..<length ?mb]) ?mb) = Inr (model_images self)"
    and d: "map_err build_diff_obslist (zip ?mb (model_images self)) = Inr (sub_mbobs self)"
    by (rule ModelSubtractor_Inr)
  have lm: "length (model_images self) = length ?mb"
    using ModelSubtractor_lengths(1) [OF assms(1)] .
  have "build_band_models X self1 (zip (map int [0..<length ?mb]) ?mb ! b)
          = Inr (model_images self ! b)"
    by (rule map_err_nth(2) [OF m]) (simp add: assms(4))
  then have "build_band_models X self1 (int b, ?mb ! b) = Inr (model_images self ! b)"
    using assms(4) by simp
  from build_band_models_Inr [OF this a n c]
  obtain obs rest where ol: "?mb ! b = obs # rest"
    and ims: "model_images self ! b = map (object_model X sh n b obs) [0..<nat n]"
    by blast
  have fa: "finite_image (image obs)"
    using assms(2,4) ol by (auto simp: list_all_length finite_band_def split: list.splits)
  have each: "\<forall>x \<in> set (model_images self ! b). length x = length (image obs) \<and> finite_image x"
    using finite_object_model [OF assms(3)] by (auto simp: ims)
  have "build_diff_obslist (zip ?mb (model_images self) ! b) = Inr (sub_mbobs self ! b)"
    by (rule map_err_nth(2) [OF d]) (simp add: assms(4) lm)
  then have "build_diff_obslist (?mb ! b, model_images self ! b) = Inr (sub_mbobs self ! b)"
    using assms(4) lm by simp
  then have diff: "sub_mbobs self ! b
      = [obs\<lparr>image := arr_sub (image obs)
                (sum_images (length (image obs)) (model_images self ! b))\<rparr>]"
    using ol subtract_all_sum(1) [OF fa each]
    by (simp add: build_diff_obslist_def first_obs_def)
  show ?thesis
    using ol ims [symmetric] diff subtract_all_sum(2) [OF fa each]
    by (simp add: subtracted_band_def)
qed

lemma demo_ModelSubtractor:
  "ModelSubtractor (demo_collab 0 0) (demo_deblended 2 2) 2 = Inr demo_subtractor"
  by (simp add: ModelSubtractor_def set_ngauss_per_def py_index_def build_models_def
        build_band_models_def first_obs_def get_object_gmix_data_convolved_def
        get_object_index_range_convolved_def build_subtracted_mbobs_def
        build_diff_obslist_def isub_def range_nobj demo_defs demo_subtractor_def
        arr_eval Let_def upto_rec1)

lemma demo_finite:
  "list_all finite_band (orig_mbobs (demo_deblended 2 2))"
  "\<forall>gm jac k i. finite_float (render (demo_collab 0 0) gm jac k i)"
  by (simp_all add: demo_defs finite_band_def finite_image_def finite_float_def)

text \<open>
  A subtractor as the constructor builds it is in order for every object: the scope of
  \<^verbatim>\<open>add_source\<close> can be opened on it.
\<close>

lemma ModelSubtractor_ok:
  assumes "ModelSubtractor X sh n = Inr self"
    and "list_all finite_band (orig_mbobs sh)"
    and "\<forall>gm jac k i. finite_float (render X gm jac k i)"
    and "0 \<le> index" and "index < n"
  shows "subtractor_ok self index"
proof -
  have ls: "length (sub_mbobs self) = length (orig_mbobs sh)"
    and lm: "length (model_images self) = length (orig_mbobs sh)"
    using ModelSubtractor_lengths [OF assms(1)] by simp_all
  have "band_ok index (sub_mbobs self ! b) (model_images self ! b)"
    if b: "b < length (orig_mbobs sh)" for b
  proof -
    from ModelSubtractor_band [OF assms(1-3) b]
    obtain obs rest where ol: "orig_mbobs sh ! b = obs # rest"
      and ims: "model_images self ! b = map (object_model X sh n b obs) [0..<nat n]"
      and diff: "sub_mbobs self ! b
        = [obs\<lparr>image := arr_sub (image obs)
                  (sum_images (length (image obs)) (model_images self ! b))\<rparr>]"
      by (auto simp: subtracted_band_def split: list.splits)
    let ?s = "sum_images (length (image obs)) (model_images self ! b)"
    have fa: "finite_image (image obs)"
      using assms(2) b ol by (auto simp: list_all_length finite_band_def split: list.splits)
    have each: "\<forall>x \<in> set (model_images self ! b).
                  length x = length (image obs) \<and> finite_image x"
      using finite_object_model [OF assms(3)] by (auto simp: ims)
    have z: "finite_image (replicate (length (image obs)) (Fin 0))" by (rule finite_zeros)
    have lz: "length (replicate (length (image obs)) (Fin 0)) = length (image obs)" by simp
    from foldl_arr_add_closed [OF z lz each]
    have fs: "finite_image ?s" and lsum: "length ?s = length (image obs)"
      by (simp_all add: sum_images_def)
    have fd: "finite_image (arr_sub (image obs) ?s)"
      by (rule finite_arr_sub) (simp_all add: fa fs lsum)
    have i: "nat index < nat n" using assms(4,5) by simp
    have nth: "model_images self ! b ! nat index = object_model X sh n b obs (nat index)"
      using i by (simp add: ims)
    have fm: "finite_image (model_images self ! b ! nat index)"
      using finite_object_model [OF assms(3)] by (simp add: nth)
    have len: "length (model_images self ! b ! nat index) = length (arr_sub (image obs) ?s)"
      by (simp add: nth lsum)
    have li: "nat index < length (model_images self ! b)" using i by (simp add: ims)
    show ?thesis
      using li len fd fm by (simp add: band_ok_def diff)
  qed
  then show ?thesis
    using ls lm by (simp add: subtractor_ok_def list_all2_conv_all_nth)
qed

section \<open>The subtracted observations\<close>

text \<open>
  Claim C9. When the constructor of \<^verbatim>\<open>ModelSubtractor\<close> returns, for pixel values that
  are finite numbers (of the original images and of what the renderer writes) and with
  exact arithmetic on them: the subtracted observations and the model images have one
  entry per band of the input, and in every band the model images are the renderings of
  the \<open>n\<close> objects' ranges of the band's convolved mixture, the subtracted band is one
  observation, the band's first with only its image replaced (weight map, Jacobian and
  PSF are those of the original), that image is the original less the sum of the band's
  model images, and adding the model images back onto it one by one gives the original
  image.
\<close>

theorem ModelSubtractor_subtracted:
  assumes "ModelSubtractor X sh n = Inr self"
    and "list_all finite_band (orig_mbobs sh)"
    and "\<forall>gm jac k i. finite_float (render X gm jac k i)"
  shows "length (sub_mbobs self) = length (orig_mbobs sh) \<and>
         length (model_images self) = length (orig_mbobs sh) \<and>
         (\<forall>b < length (orig_mbobs sh).
            subtracted_band X sh n b
              (orig_mbobs sh ! b) (model_images self ! b) (sub_mbobs self ! b))"
  using ModelSubtractor_lengths [OF assms(1)] ModelSubtractor_band [OF assms]
  by simp

text \<open>
  The small run with two objects: the image \<open>[1, 2]\<close> less two model images of ones is
  \<open>[-1, 0]\<close>, and the other fields are those of the original observation.
\<close>

theorem ModelSubtractor_subtracted_witness:
  "ModelSubtractor (demo_collab 0 0) (demo_deblended 2 2) 2 = Inr demo_subtractor \<and>
   list_all finite_band (orig_mbobs (demo_deblended 2 2)) \<and>
   (\<forall>gm jac k i. finite_float (render (demo_collab 0 0) gm jac k i)) \<and>
   length (sub_mbobs demo_subtractor) = 1 \<and>
   subtracted_band (demo_collab 0 0) (demo_deblended 2 2) 2 0 [demo_obs]
     [[Fin 1, Fin 1], [Fin 1, Fin 1]] [demo_obs\<lparr>image := [Fin (- 1), Fin 0]\<rparr>] \<and>
   sum_images 2 [[Fin 1, Fin 1], [Fin 1, Fin 1]] = [Fin 2, Fin 2]"
proof -
  note run = demo_ModelSubtractor
  from ModelSubtractor_subtracted [OF run demo_finite]
  have "subtracted_band (demo_collab 0 0) (demo_deblended 2 2) 2 0
          (orig_mbobs (demo_deblended 2 2) ! 0) (model_images demo_subtractor ! 0)
          (sub_mbobs demo_subtractor ! 0)"
    by (simp add: demo_deblended_def)
  then have "subtracted_band (demo_collab 0 0) (demo_deblended 2 2) 2 0 [demo_obs]
     [[Fin 1, Fin 1], [Fin 1, Fin 1]] [demo_obs\<lparr>image := [Fin (- 1), Fin 0]\<rparr>]"
    by (simp add: demo_deblended_def demo_subtractor_def)
  moreover have "sum_images 2 [[Fin 1, Fin 1], [Fin 1, Fin 1]] = [Fin 2, Fin 2]"
    by (simp add: sum_images_def arr_add_def numeral_2_eq_2)
  moreover have "length (sub_mbobs demo_subtractor) = 1"
    by (simp add: demo_subtractor_def)
  ultimately show ?thesis using run demo_finite by simp
qed

section \<open>The scope of add\_source\<close>

text \<open>
  Claim C5. For an object index in range, on a subtractor in order for that object (a
  model image of the object in every band, of the shape of the band's image, all pixel
  values finite, arithmetic on them exact), and a body that leaves the subtracted
  observations and the model images as it finds them: the body runs on the subtractor
  with the object's model image added onto every band's image; when the scope is left,
  whether the body returned or raised, the subtracted observations are those from
  before the scope was entered; and the exception that leaves the scope, if any, is the
  body's.
\<close>

theorem add_source_restores:
  assumes "subtractor_ok self index" and "0 \<le> index" and "index < nobj self"
    and "sub_mbobs (fst (body (opened self index))) = sub_mbobs (opened self index)"
    and "model_images (fst (body (opened self index))) = model_images self"
  shows "add_source self index body
           = ((fst (body (opened self index)))\<lparr>sub_mbobs := sub_mbobs self\<rparr>,
              snd (body (opened self index)))"
proof -
  have ok: "list_all2 (band_ok index) (sub_mbobs self) (model_images self)"
    using assms(1) by (simp add: subtractor_ok_def)
  have add: "add_or_subtract_model_image self index ''add'' = (opened self index, None)"
    using add_bands [OF ok assms(2)] by (simp add: add_or_subtract_model_image_def opened_def)
  obtain self2 body_exc where body: "body (opened self index) = (self2, body_exc)"
    by (cases "body (opened self index)")
  have m2: "sub_mbobs self2 = with_source (sub_mbobs self) (model_images self) index"
    using assms(4) body by (simp add: opened_def)
  have i2: "model_images self2 = model_images self"
    using assms(5) body by simp
  have sub: "add_or_subtract_model_image self2 index ''subtract''
               = (self2\<lparr>sub_mbobs := sub_mbobs self\<rparr>, None)"
    using sub_bands [OF ok assms(2)] by (simp add: add_or_subtract_model_image_def m2 i2)
  show ?thesis
    using assms(2,3) add body sub by (simp add: add_source_def Let_def)
qed

text \<open>
  The small run, object \<open>1\<close>, with a body that raises: inside the scope the image is
  \<open>[0, 1]\<close>, afterwards the subtractor is as before and the body's exception leaves the
  scope.
\<close>

theorem add_source_restores_witness:
  "subtractor_ok demo_subtractor 1 \<and> (0 :: int) \<le> 1 \<and> 1 < nobj demo_subtractor \<and>
   sub_mbobs (fst (opened demo_subtractor 1, Some BodyError))
     = sub_mbobs (opened demo_subtractor 1) \<and>
   model_images (fst (opened demo_subtractor 1, Some BodyError))
     = model_images demo_subtractor \<and>
   sub_mbobs (opened demo_subtractor 1) = [[demo_obs\<lparr>image := [Fin 0, Fin 1]\<rparr>]] \<and>
   add_source demo_subtractor 1 (\<lambda>s. (s, Some BodyError)) = (demo_subtractor, Some BodyError)"
proof -
  have ok: "subtractor_ok demo_subtractor 1"
    by (simp add: subtractor_ok_def band_ok_def demo_subtractor_def demo_obs_def
          finite_image_def finite_float_def)
  have i: "(0 :: int) \<le> 1" and n: "1 < nobj demo_subtractor"
    by (simp_all add: demo_subtractor_def)
  have op: "sub_mbobs (opened demo_subtractor 1) = [[demo_obs\<lparr>image := [Fin 0, Fin 1]\<rparr>]]"
    by (simp add: opened_def with_source_def add_to_first_def demo_subtractor_def
          demo_obs_def arr_add_def)
  have "add_source demo_subtractor 1 (\<lambda>s. (s, Some BodyError))
          = ((opened demo_subtractor 1)\<lparr>sub_mbobs := sub_mbobs demo_subtractor\<rparr>,
             Some BodyError)"
    using add_source_restores [of demo_subtractor 1 "\<lambda>s. (s, Some BodyError)", OF ok i n]
    by (simp add: opened_def)
  then have "add_source demo_subtractor 1 (\<lambda>s. (s, Some BodyError))
               = (demo_subtractor, Some BodyError)"
    by (simp add: opened_def)
  with ok i n op show ?thesis by (simp add: opened_def)
qed

end
